theory Spec2Isabelle
  imports Complex_Main "HOL-Library.Word"
begin

section \<open>Data model of the scene manager\<close>

text \<open>
  The embedding follows \<^verbatim>\<open>Source/SceneManager.cpp\<close>. The C++ object and the parts of
  the outside world it acts on (the shader it points to, the OpenGL context) are one
  record that every method takes and returns. Two kinds of undefined behaviour of the
  C++ are values of the model: dereferencing the shader pointer when it is null, and
  indexing the texture array outside its bounds.
\<close>

datatype fault = NullDereference | OutOfBounds

type_synonym GLuint = "32 word"

type_synonym 'f vec3 = "'f \<times> 'f \<times> 'f"

text \<open>
  Single precision numbers are kept abstract: \<open>'f\<close> is the type of a \<^verbatim>\<open>float\<close>,
  \<open>'m\<close> the type of a \<^verbatim>\<open>glm::mat4\<close>, and the arithmetic of the C++ runtime and of the
  GLM library is a parameter of every function that computes with them. Nothing is
  assumed about rounding.
\<close>

record ('f, 'm) numerics =
  flit :: "rat \<Rightarrow> 'f"
  fadd :: "'f \<Rightarrow> 'f \<Rightarrow> 'f"
  fmul :: "'f \<Rightarrow> 'f \<Rightarrow> 'f"
  fsin :: "'f \<Rightarrow> 'f"
  glm_radians :: "'f \<Rightarrow> 'f"
  glm_scale :: "'f vec3 \<Rightarrow> 'm"
  glm_rotate :: "'f \<Rightarrow> 'f vec3 \<Rightarrow> 'm"
  glm_translate :: "'f vec3 \<Rightarrow> 'm"
  mat_mul :: "'m \<Rightarrow> 'm \<Rightarrow> 'm"

text \<open>
  Modelled from the spec: the declaration of \<^verbatim>\<open>TEXTURE_INFO\<close> is in
  \<^verbatim>\<open>SceneManager.h\<close>, which is not among the sources. The fields are the ones the
  methods read and write; the texture handle is a \<^verbatim>\<open>GLuint\<close>, since its address is
  passed to \<^verbatim>\<open>glGenTextures\<close>.
\<close>

record TEXTURE_INFO =
  tag :: string
  ID :: GLuint

text \<open>
  Modelled from the spec: the declaration of \<^verbatim>\<open>OBJECT_MATERIAL\<close> is in
  \<^verbatim>\<open>SceneManager.h\<close> too. The fields are the four that the methods read and write;
  its \<^verbatim>\<open>tag\<close> is \<open>mtag\<close> here, as two records cannot share a field name.
\<close>

record 'f OBJECT_MATERIAL =
  diffuseColor :: "'f vec3"
  specularColor :: "'f vec3"
  shininess :: 'f
  mtag :: string

text \<open>
  Modelled from the spec: the class \<^verbatim>\<open>ShaderManager\<close> is not among the sources. The spec
  describes it as accepting named uniform pushes of the kinds bool, int, float, vec2,
  vec3, vec4 and mat4; the model records every push, in call order.
\<close>

datatype ('f, 'm) uniform =
    BoolValue bool
  | IntValue int
  | FloatValue 'f
  | Vec2Value 'f 'f
  | Vec3Value "'f vec3"
  | Vec4Value 'f 'f 'f 'f
  | Mat4Value 'm
  | Sampler2DValue int

text \<open>
  Modelled from the spec: the state of a \<^verbatim>\<open>ShaderManager\<close> is the list of the
  uniforms pushed to it, oldest first.
\<close>

record ('f, 'm) ShaderManager =
  uniforms :: "(string \<times> ('f, 'm) uniform) list"

text \<open>
  Modelled from the spec: each \<^verbatim>\<open>set...Value\<close> method of \<^verbatim>\<open>ShaderManager\<close> is a push
  of a named value of its kind.
\<close>

definition push :: "string \<Rightarrow> ('f, 'm) uniform \<Rightarrow> ('f, 'm) ShaderManager \<Rightarrow> ('f, 'm) ShaderManager" where
  "push name v sh = sh\<lparr>uniforms := uniforms sh @ [(name, v)]\<rparr>"

definition setBoolValue :: "string \<Rightarrow> bool \<Rightarrow> ('f, 'm) ShaderManager \<Rightarrow> ('f, 'm) ShaderManager" where
  "setBoolValue name b = push name (BoolValue b)"

definition setIntValue :: "string \<Rightarrow> int \<Rightarrow> ('f, 'm) ShaderManager \<Rightarrow> ('f, 'm) ShaderManager" where
  "setIntValue name i = push name (IntValue i)"

definition setFloatValue :: "string \<Rightarrow> 'f \<Rightarrow> ('f, 'm) ShaderManager \<Rightarrow> ('f, 'm) ShaderManager" where
  "setFloatValue name x = push name (FloatValue x)"

definition setVec2Value :: "string \<Rightarrow> 'f \<times> 'f \<Rightarrow> ('f, 'm) ShaderManager \<Rightarrow> ('f, 'm) ShaderManager" where
  "setVec2Value name v = push name (Vec2Value (fst v) (snd v))"

definition setVec3Value :: "string \<Rightarrow> 'f vec3 \<Rightarrow> ('f, 'm) ShaderManager \<Rightarrow> ('f, 'm) ShaderManager" where
  "setVec3Value name v = push name (Vec3Value v)"

definition setVec4Value :: "string \<Rightarrow> 'f \<times> 'f \<times> 'f \<times> 'f \<Rightarrow> ('f, 'm) ShaderManager \<Rightarrow> ('f, 'm) ShaderManager" where
  "setVec4Value name v = (case v of (r, g, b, a) \<Rightarrow> push name (Vec4Value r g b a))"

definition setMat4Value :: "string \<Rightarrow> 'm \<Rightarrow> ('f, 'm) ShaderManager \<Rightarrow> ('f, 'm) ShaderManager" where
  "setMat4Value name m = push name (Mat4Value m)"

definition setSampler2DValue :: "string \<Rightarrow> int \<Rightarrow> ('f, 'm) ShaderManager \<Rightarrow> ('f, 'm) ShaderManager" where
  "setSampler2DValue name slot = push name (Sampler2DValue slot)"

subsection \<open>The OpenGL context and the image decoder\<close>

text \<open>
  The OpenGL context is the list of the calls made on it, in order. Every call of the
  source has \<^verbatim>\<open>GL_TEXTURE_2D\<close> as its target, which is left out. \<open>glDeleteTextures\<close> is
  part of the interface although no method calls it.
\<close>

datatype gl_enum =
    GL_TEXTURE_WRAP_S | GL_TEXTURE_WRAP_T | GL_TEXTURE_MIN_FILTER | GL_TEXTURE_MAG_FILTER
  | GL_REPEAT | GL_LINEAR | GL_RGB8 | GL_RGB | GL_RGBA8 | GL_RGBA

datatype gl_call =
    glGenTextures GLuint
  | glBindTexture GLuint
  | glActiveTexture nat
  | glTexParameteri gl_enum gl_enum
  | glTexImage2D gl_enum int int gl_enum "8 word list"
  | glGenerateMipmap
  | glDeleteTextures GLuint

record image =
  width :: int
  height :: int
  colorChannels :: int
  pixels :: "8 word list"

text \<open>
  What the program cannot decide is an input: \<open>stbi_load\<close> is the decoder applied to the
  file system (\<open>None\<close> is the null pointer of a failed load), and \<open>gen_name\<close> is the name
  the driver hands out at a call of \<^verbatim>\<open>glGenTextures\<close>, given the calls so far.
\<close>

record env =
  stbi_load :: "string \<Rightarrow> image option"
  gen_name :: "gl_call list \<Rightarrow> GLuint"

text \<open>
  The members of the \<^verbatim>\<open>SceneManager\<close> object, and the OpenGL context \<open>gl\<close>. The
  shader pointer is \<open>None\<close> when null. The count \<^verbatim>\<open>m_loadedTextures\<close> and the loop
  indices are \<^verbatim>\<open>int\<close> in the source; they start at 0 and only grow by one, and
  they stay below the size of the container they index in every run without a fault,
  so they are natural numbers here.
\<close>

record ('f, 'm) world =
  m_pShaderManager :: "('f, 'm) ShaderManager option"
  m_textureIDs :: "TEXTURE_INFO list"
  m_loadedTextures :: nat
  m_objectMaterials :: "'f OBJECT_MATERIAL list"
  gl :: "gl_call list"

section \<open>The methods\<close>

subsection \<open>Constructor\<close>

text \<open>
  Modelled from the spec: the member \<^verbatim>\<open>m_textureIDs\<close> is declared in \<^verbatim>\<open>SceneManager.h\<close>;
  the spec gives it 16 slots, the number the constructor initialises. Before the
  constructor's loop the slots hold default-constructed entries, whose handle
  \<open>junk\<close> is indeterminate.
\<close>

definition raw_textureIDs :: "GLuint \<Rightarrow> TEXTURE_INFO list" where
  "raw_textureIDs junk = replicate 16 \<lparr>tag = [], ID = junk\<rparr>"

function SceneManager_init :: "nat \<Rightarrow> TEXTURE_INFO list \<Rightarrow> TEXTURE_INFO list" where
  "SceneManager_init i arr =
     (if i < 16 then SceneManager_init (i + 1) (arr[i := \<lparr>tag = ''/0'', ID = - 1\<rparr>]) else arr)"
  by pat_completeness auto
termination
  by (relation "measure (\<lambda>(i, arr). 16 - i)") auto

definition SceneManager ::
  "('f, 'm) ShaderManager option \<Rightarrow> GLuint \<Rightarrow> gl_call list \<Rightarrow> ('f, 'm) world" where
  "SceneManager pShaderManager junk ctx =
     \<lparr>m_pShaderManager = pShaderManager,
      m_textureIDs = SceneManager_init 0 (raw_textureIDs junk),
      m_loadedTextures = 0,
      m_objectMaterials = [],
      gl = ctx\<rparr>"

subsection \<open>Texture registry\<close>

text \<open>
  \<open>CreateGLTexture_register\<close> is the tail of \<^verbatim>\<open>CreateGLTexture\<close> that both supported
  channel counts reach: mipmaps, unbinding, and the write of the new entry at index
  \<^verbatim>\<open>m_loadedTextures\<close>. The source writes without comparing the index with the size
  of the array; a write past the end is the fault \<open>OutOfBounds\<close>. Console output is
  not modelled.
\<close>

definition CreateGLTexture_register ::
  "GLuint \<Rightarrow> string \<Rightarrow> ('f, 'm) world \<Rightarrow> fault + bool \<times> ('f, 'm) world" where
  "CreateGLTexture_register textureID t w =
     (let w' = w\<lparr>gl := gl w @ [glGenerateMipmap, glBindTexture 0]\<rparr>
      in if m_loadedTextures w' < length (m_textureIDs w')
         then Inr (True,
           w'\<lparr>m_textureIDs := (m_textureIDs w')[m_loadedTextures w' := \<lparr>tag = t, ID = textureID\<rparr>],
              m_loadedTextures := m_loadedTextures w' + 1\<rparr>)
         else Inl OutOfBounds)"

definition CreateGLTexture ::
  "env \<Rightarrow> string \<Rightarrow> string \<Rightarrow> ('f, 'm) world \<Rightarrow> fault + bool \<times> ('f, 'm) world" where
  "CreateGLTexture e filename t w =
     (case stbi_load e filename of
        None \<Rightarrow> Inr (False, w)
      | Some img \<Rightarrow>
          (let textureID = gen_name e (gl w);
               w1 = w\<lparr>gl := gl w @
                      [glGenTextures textureID,
                       glBindTexture textureID,
                       glTexParameteri GL_TEXTURE_WRAP_S GL_REPEAT,
                       glTexParameteri GL_TEXTURE_WRAP_T GL_REPEAT,
                       glTexParameteri GL_TEXTURE_MIN_FILTER GL_LINEAR,
                       glTexParameteri GL_TEXTURE_MAG_FILTER GL_LINEAR]\<rparr>
           in if colorChannels img = 3
              then CreateGLTexture_register textureID t
                     (w1\<lparr>gl := gl w1 @
                        [glTexImage2D GL_RGB8 (width img) (height img) GL_RGB (pixels img)]\<rparr>)
              else if colorChannels img = 4
              then CreateGLTexture_register textureID t
                     (w1\<lparr>gl := gl w1 @
                        [glTexImage2D GL_RGBA8 (width img) (height img) GL_RGBA (pixels img)]\<rparr>)
              else Inr (False, w1)))"

function BindGLTextures_loop :: "nat \<Rightarrow> ('f, 'm) world \<Rightarrow> fault + ('f, 'm) world" where
  "BindGLTextures_loop i w =
     (if i < m_loadedTextures w
      then if i < length (m_textureIDs w)
           then BindGLTextures_loop (i + 1)
                  (w\<lparr>gl := gl w @ [glActiveTexture i, glBindTexture (ID (m_textureIDs w ! i))]\<rparr>)
           else Inl OutOfBounds
      else Inr w)"
  by pat_completeness auto
termination
  by (relation "measure (\<lambda>(i, w). m_loadedTextures w - i)") auto

definition BindGLTextures :: "('f, 'm) world \<Rightarrow> fault + ('f, 'm) world" where
  "BindGLTextures w = BindGLTextures_loop 0 w"

function DestroyGLTextures_loop :: "env \<Rightarrow> nat \<Rightarrow> ('f, 'm) world \<Rightarrow> fault + ('f, 'm) world" where
  "DestroyGLTextures_loop e i w =
     (if i < m_loadedTextures w
      then if i < length (m_textureIDs w)
           then DestroyGLTextures_loop e (i + 1)
                  (w\<lparr>gl := gl w @ [glGenTextures (gen_name e (gl w))],
                     m_textureIDs := (m_textureIDs w)
                        [i := (m_textureIDs w ! i)\<lparr>ID := gen_name e (gl w)\<rparr>]\<rparr>)
           else Inl OutOfBounds
      else Inr w)"
  by pat_completeness auto
termination
  by (relation "measure (\<lambda>(e, i, w). m_loadedTextures w - i)") auto

definition DestroyGLTextures :: "env \<Rightarrow> ('f, 'm) world \<Rightarrow> fault + ('f, 'm) world" where
  "DestroyGLTextures e w = DestroyGLTextures_loop e 0 w"

text \<open>
  The two lookups are the source's \<^verbatim>\<open>while\<close> loops, with the loop variables as
  arguments. The handle is converted from \<^verbatim>\<open>GLuint\<close> to the \<^verbatim>\<open>int\<close> the method returns.
\<close>

function FindTextureID_loop ::
  "('f, 'm) world \<Rightarrow> string \<Rightarrow> nat \<Rightarrow> bool \<Rightarrow> int \<Rightarrow> fault + int" where
  "FindTextureID_loop w t index bFound textureID =
     (if index < m_loadedTextures w \<and> bFound = False
      then if index < length (m_textureIDs w)
           then if tag (m_textureIDs w ! index) = t
                then FindTextureID_loop w t index True (sint (ID (m_textureIDs w ! index)))
                else FindTextureID_loop w t (index + 1) bFound textureID
           else Inl OutOfBounds
      else Inr textureID)"
  by pat_completeness auto
termination
  by (relation "measure (\<lambda>(w, t, index, bFound, textureID).
        2 * (m_loadedTextures w - index) + (if bFound then 0 else 1))") auto

definition FindTextureID :: "('f, 'm) world \<Rightarrow> string \<Rightarrow> fault + int" where
  "FindTextureID w t = FindTextureID_loop w t 0 False (- 1)"

function FindTextureSlot_loop ::
  "('f, 'm) world \<Rightarrow> string \<Rightarrow> nat \<Rightarrow> bool \<Rightarrow> int \<Rightarrow> fault + int" where
  "FindTextureSlot_loop w t index bFound textureSlot =
     (if index < m_loadedTextures w \<and> bFound = False
      then if index < length (m_textureIDs w)
           then if tag (m_textureIDs w ! index) = t
                then FindTextureSlot_loop w t index True (int index)
                else FindTextureSlot_loop w t (index + 1) bFound textureSlot
           else Inl OutOfBounds
      else Inr textureSlot)"
  by pat_completeness auto
termination
  by (relation "measure (\<lambda>(w, t, index, bFound, textureSlot).
        2 * (m_loadedTextures w - index) + (if bFound then 0 else 1))") auto

definition FindTextureSlot :: "('f, 'm) world \<Rightarrow> string \<Rightarrow> fault + int" where
  "FindTextureSlot w t = FindTextureSlot_loop w t 0 False (- 1)"

subsection \<open>Material registry\<close>

text \<open>
  \<^verbatim>\<open>FindMaterial\<close> writes its result through a reference parameter; the model returns
  the material after the call beside the method's result. The vector is indexed below
  its size only, so no read can fail.
\<close>

function FindMaterial_loop ::
  "'f OBJECT_MATERIAL list \<Rightarrow> string \<Rightarrow> nat \<Rightarrow> bool \<Rightarrow> 'f OBJECT_MATERIAL \<Rightarrow> 'f OBJECT_MATERIAL" where
  "FindMaterial_loop ms t index bFound material =
     (if index < length ms \<and> bFound = False
      then if mtag (ms ! index) = t
           then FindMaterial_loop ms t index True
                  (material\<lparr>diffuseColor := diffuseColor (ms ! index),
                            specularColor := specularColor (ms ! index),
                            shininess := shininess (ms ! index)\<rparr>)
           else FindMaterial_loop ms t (index + 1) bFound material
      else material)"
  by pat_completeness auto
termination
  by (relation "measure (\<lambda>(ms, t, index, bFound, material).
        2 * (length ms - index) + (if bFound then 0 else 1))") auto

definition FindMaterial ::
  "('f, 'm) world \<Rightarrow> string \<Rightarrow> 'f OBJECT_MATERIAL \<Rightarrow> bool \<times> 'f OBJECT_MATERIAL" where
  "FindMaterial w t material =
     (if length (m_objectMaterials w) = 0 then (False, material)
      else (True, FindMaterial_loop (m_objectMaterials w) t 0 False material))"

subsection \<open>Shader state setters\<close>

definition g_ModelName :: string where "g_ModelName = ''model''"
definition g_ColorValueName :: string where "g_ColorValueName = ''objectColor''"
definition g_TextureValueName :: string where "g_TextureValueName = ''objectTexture''"
definition g_UseTextureName :: string where "g_UseTextureName = ''bUseTexture''"
definition g_UseLightingName :: string where "g_UseLightingName = ''bUseLighting''"

definition SetTransformations ::
  "('f, 'm) numerics \<Rightarrow> 'f vec3 \<Rightarrow> 'f \<Rightarrow> 'f \<Rightarrow> 'f \<Rightarrow> 'f vec3 \<Rightarrow> ('f, 'm) world \<Rightarrow> ('f, 'm) world" where
  "SetTransformations N scaleXYZ XrotationDegrees YrotationDegrees ZrotationDegrees positionXYZ w =
     (let scale = glm_scale N scaleXYZ;
          rotationX = glm_rotate N (glm_radians N XrotationDegrees) (flit N 1, flit N 0, flit N 0);
          rotationY = glm_rotate N (glm_radians N YrotationDegrees) (flit N 0, flit N 1, flit N 0);
          rotationZ = glm_rotate N (glm_radians N ZrotationDegrees) (flit N 0, flit N 0, flit N 1);
          translation = glm_translate N positionXYZ;
          modelView = mat_mul N (mat_mul N (mat_mul N (mat_mul N translation rotationZ) rotationY) rotationX) scale
      in case m_pShaderManager w of
           None \<Rightarrow> w
         | Some sh \<Rightarrow> w\<lparr>m_pShaderManager := Some (setMat4Value g_ModelName modelView sh)\<rparr>)"

definition SetShaderColor :: "'f \<Rightarrow> 'f \<Rightarrow> 'f \<Rightarrow> 'f \<Rightarrow> ('f, 'm) world \<Rightarrow> ('f, 'm) world" where
  "SetShaderColor redColorValue greenColorValue blueColorValue alphaValue w =
     (let currentColor = (redColorValue, greenColorValue, blueColorValue, alphaValue)
      in case m_pShaderManager w of
           None \<Rightarrow> w
         | Some sh \<Rightarrow>
             w\<lparr>m_pShaderManager :=
                 Some (setVec4Value g_ColorValueName currentColor (setIntValue g_UseTextureName 0 sh))\<rparr>)"

definition SetShaderTexture :: "string \<Rightarrow> ('f, 'm) world \<Rightarrow> fault + ('f, 'm) world" where
  "SetShaderTexture textureTag w =
     (case m_pShaderManager w of
        None \<Rightarrow> Inr w
      | Some sh \<Rightarrow>
          (case FindTextureSlot w textureTag of
             Inl f \<Rightarrow> Inl f
           | Inr textureID \<Rightarrow>
               Inr (w\<lparr>m_pShaderManager :=
                  Some (setSampler2DValue g_TextureValueName textureID
                         (setIntValue g_UseTextureName 1 sh))\<rparr>)))"

definition SetTextureUVScale :: "'f \<Rightarrow> 'f \<Rightarrow> ('f, 'm) world \<Rightarrow> ('f, 'm) world" where
  "SetTextureUVScale u v w =
     (case m_pShaderManager w of
        None \<Rightarrow> w
      | Some sh \<Rightarrow> w\<lparr>m_pShaderManager := Some (setVec2Value ''UVscale'' (u, v) sh)\<rparr>)"

text \<open>
  A call through the shader pointer that no test guards: a null pointer is a fault.
\<close>

definition deref_shader ::
  "(('f, 'm) ShaderManager \<Rightarrow> ('f, 'm) ShaderManager) \<Rightarrow> ('f, 'm) world \<Rightarrow> fault + ('f, 'm) world" where
  "deref_shader f w =
     (case m_pShaderManager w of
        None \<Rightarrow> Inl NullDereference
      | Some sh \<Rightarrow> Inr (w\<lparr>m_pShaderManager := Some (f sh)\<rparr>))"

definition and_then :: "fault + 'a \<Rightarrow> ('a \<Rightarrow> fault + 'b) \<Rightarrow> fault + 'b" where
  "and_then r k = (case r of Inl f \<Rightarrow> Inl f | Inr x \<Rightarrow> k x)"

text \<open>
  The local \<^verbatim>\<open>material\<close> of \<^verbatim>\<open>SetShaderMaterial\<close> is declared without an initialiser;
  its content before the lookup is the argument \<open>material0\<close>.
\<close>

definition SetShaderMaterial ::
  "'f OBJECT_MATERIAL \<Rightarrow> string \<Rightarrow> ('f, 'm) world \<Rightarrow> fault + ('f, 'm) world" where
  "SetShaderMaterial material0 materialTag w =
     (if length (m_objectMaterials w) > 0
      then (case FindMaterial w materialTag material0 of
              (bReturn, material) \<Rightarrow>
                if bReturn = True
                then and_then (deref_shader (setVec3Value ''material.diffuseColor'' (diffuseColor material)) w)
                      (\<lambda>w. and_then (deref_shader (setVec3Value ''material.specularColor'' (specularColor material)) w)
                      (\<lambda>w. deref_shader (setFloatValue ''material.shininess'' (shininess material)) w))
                else Inr w)
      else Inr w)"

subsection \<open>Rendering a frame\<close>

text \<open>
  The fifteen per-object routines are straight-line sequences of the setters above and
  of mesh draws, with literal constants. \<^verbatim>\<open>RenderScene\<close> is modelled for any behaviour
  of theirs: \<open>run\<close> maps the name of a routine to what a call of it does (the mesh
  library \<^verbatim>\<open>m_basicMeshes\<close> is used inside these routines only). The elapsed
  time that \<^verbatim>\<open>glfwGetTime\<close> returns, narrowed to \<^verbatim>\<open>float\<close>, is the argument \<open>time\<close>.
\<close>

datatype routine =
    RenderFloor | RenderBackWall | RenderRightWall | RenderTable | RenderClock
  | RenderWineBottle | RenderCandle | RenderLeftChair | RenderRightChair
  | RenderLeftWineGlass | RenderRightWineGlass | RenderLeftPlate | RenderRightPlate
  | RenderLeftFork | RenderRightFork

definition vec3_times :: "('f, 'm) numerics \<Rightarrow> 'f vec3 \<Rightarrow> 'f \<Rightarrow> 'f vec3" where
  "vec3_times N v x = (case v of (a, b, c) \<Rightarrow> (fmul N a x, fmul N b x, fmul N c x))"

definition flicker_of :: "('f, 'm) numerics \<Rightarrow> 'f \<Rightarrow> 'f" where
  "flicker_of N time = fadd N (flit N (9 / 10)) (fmul N (flit N (1 / 10)) (fsin N (fmul N time (flit N 15))))"

definition RenderScene ::
  "('f, 'm) numerics \<Rightarrow> (routine \<Rightarrow> ('f, 'm) world \<Rightarrow> fault + ('f, 'm) world) \<Rightarrow> 'f \<Rightarrow>
   ('f, 'm) world \<Rightarrow> fault + ('f, 'm) world" where
  "RenderScene N run time w =
     (let flicker = flicker_of N time;
          flickerDiffuse = vec3_times N (flit N (9 / 10), flit N (55 / 100), flit N (2 / 10)) flicker;
          flickerAmbient = vec3_times N (flit N (8 / 100), flit N (5 / 100), flit N (2 / 100)) flicker
      in and_then (deref_shader (setVec3Value ''spotLight.diffuse'' flickerDiffuse) w)
        (\<lambda>w. and_then (deref_shader (setVec3Value ''spotLight.ambient'' flickerAmbient) w)
        (\<lambda>w. and_then (run RenderFloor w)
        (\<lambda>w. and_then (run RenderBackWall w)
        (\<lambda>w. and_then (run RenderRightWall w)
        (\<lambda>w. and_then (run RenderTable w)
        (\<lambda>w. and_then (run RenderClock w)
        (\<lambda>w. and_then (run RenderWineBottle w)
        (\<lambda>w. and_then (run RenderCandle w)
        (\<lambda>w. and_then (run RenderLeftChair w)
        (\<lambda>w. and_then (run RenderRightChair w)
        (\<lambda>w. and_then (run RenderLeftWineGlass w)
        (\<lambda>w. and_then (run RenderRightWineGlass w)
        (\<lambda>w. and_then (run RenderLeftPlate w)
        (\<lambda>w. and_then (run RenderRightPlate w)
        (\<lambda>w. and_then (run RenderLeftFork w)
        (\<lambda>w. run RenderRightFork w)))))))))))))))))"

subsection \<open>Scene preparation\<close>

text \<open>
  \<^verbatim>\<open>DefineObjectMaterials\<close> appends eleven materials, in this order. The files and tags
  that \<^verbatim>\<open>LoadSceneTextures\<close> passes to \<^verbatim>\<open>CreateGLTexture\<close>, in call order, are
  \<open>scene_textures\<close>.
\<close>

definition DefineObjectMaterials :: "('f, 'm) numerics \<Rightarrow> ('f, 'm) world \<Rightarrow> ('f, 'm) world" where
  "DefineObjectMaterials N w =
     w\<lparr>m_objectMaterials := m_objectMaterials w @
       [\<lparr>diffuseColor = (flit N (7 / 10), flit N (7 / 10), flit N (7 / 10)),
          specularColor = (flit N (4 / 10), flit N (4 / 10), flit N (4 / 10)),
          shininess = flit N 20, mtag = ''tile''\<rparr>,
        \<lparr>diffuseColor = (flit N (7 / 10), flit N (7 / 10), flit N (7 / 10)),
          specularColor = (flit N (8 / 10), flit N (8 / 10), flit N (8 / 10)),
          shininess = flit N 60, mtag = ''wood''\<rparr>,
        \<lparr>diffuseColor = (flit N (7 / 10), flit N (7 / 10), flit N (7 / 10)),
          specularColor = (flit N 1, flit N 1, flit N 1),
          shininess = flit N 95, mtag = ''glass''\<rparr>,
        \<lparr>diffuseColor = (flit N (5 / 10), flit N (5 / 10), flit N (5 / 10)),
          specularColor = (flit N (5 / 100), flit N (5 / 100), flit N (5 / 100)),
          shininess = flit N 20, mtag = ''wall''\<rparr>,
        \<lparr>diffuseColor = (flit N 1, flit N (95 / 100), flit N (85 / 100)),
          specularColor = (flit N (3 / 10), flit N (3 / 10), flit N (3 / 10)),
          shininess = flit N 4, mtag = ''candle''\<rparr>,
        \<lparr>diffuseColor = (flit N 1, flit N (6 / 10), flit N (1 / 10)),
          specularColor = (flit N 1, flit N (8 / 10), flit N (4 / 10)),
          shininess = flit N 80, mtag = ''flame''\<rparr>,
        \<lparr>diffuseColor = (flit N (85 / 100), flit N (85 / 100), flit N (85 / 100)),
          specularColor = (flit N (15 / 100), flit N (15 / 100), flit N (15 / 100)),
          shininess = flit N 40, mtag = ''baseboard''\<rparr>,
        \<lparr>diffuseColor = (flit N (9 / 10), flit N (9 / 10), flit N (9 / 10)),
          specularColor = (flit N (1 / 10), flit N (1 / 10), flit N (1 / 10)),
          shininess = flit N 5, mtag = ''cushion''\<rparr>,
        \<lparr>diffuseColor = (flit N (4 / 10), flit N (2 / 10), flit N (1 / 10)),
          specularColor = (flit N (1 / 10), flit N (5 / 100), flit N (3 / 100)),
          shininess = flit N 8, mtag = ''meatball''\<rparr>,
        \<lparr>diffuseColor = (flit N (9 / 10), flit N (9 / 10), flit N (88 / 100)),
          specularColor = (flit N (2 / 10), flit N (2 / 10), flit N (2 / 10)),
          shininess = flit N 12, mtag = ''plate''\<rparr>,
        \<lparr>diffuseColor = (flit N (6 / 10), flit N (6 / 10), flit N (6 / 10)),
          specularColor = (flit N (9 / 10), flit N (9 / 10), flit N (9 / 10)),
          shininess = flit N 64, mtag = ''fork''\<rparr>]\<rparr>"

definition scene_textures :: "(string \<times> string) list" where
  "scene_textures =
     [(''textures/tile.jpg'', ''floor_tile''),
      (''textures/clock.jpg'', ''clock_face''),
      (''textures/wood_clock.jpg'', ''clock_side''),
      (''textures/candle_color.jpg'', ''candle_side''),
      (''textures/candle_top.jpg'', ''candle_top''),
      (''textures/baseboard.png'', ''baseboard''),
      (''textures/stella.png'', ''wine_lable''),
      (''textures/cap.png'', ''wine_cap''),
      (''textures/stripe.png'', ''chair_cushion''),
      (''textures/pasta.jpg'', ''pasta''),
      (''textures/meatball.png'', ''meatball''),
      (''textures/stainless.png'', ''metal_fork'')]"

section \<open>Notions used to state the properties\<close>

text \<open>
  The object invariant of the texture registry: the array has its 16 slots and the
  count of loaded textures does not exceed them.
\<close>

definition registry_ok :: "('f, 'm) world \<Rightarrow> bool" where
  "registry_ok w \<longleftrightarrow> length (m_textureIDs w) = 16 \<and> m_loadedTextures w \<le> 16"

text \<open>
  The model matrix in the words of the spec: the three rotations are about the
  coordinate axes, by angles given in degrees.
\<close>

definition Scale :: "('f, 'm) numerics \<Rightarrow> 'f vec3 \<Rightarrow> 'm" where
  "Scale N s = glm_scale N s"

definition RotateX :: "('f, 'm) numerics \<Rightarrow> 'f \<Rightarrow> 'm" where
  "RotateX N degrees = glm_rotate N (glm_radians N degrees) (flit N 1, flit N 0, flit N 0)"

definition RotateY :: "('f, 'm) numerics \<Rightarrow> 'f \<Rightarrow> 'm" where
  "RotateY N degrees = glm_rotate N (glm_radians N degrees) (flit N 0, flit N 1, flit N 0)"

definition RotateZ :: "('f, 'm) numerics \<Rightarrow> 'f \<Rightarrow> 'm" where
  "RotateZ N degrees = glm_rotate N (glm_radians N degrees) (flit N 0, flit N 0, flit N 1)"

definition Translate :: "('f, 'm) numerics \<Rightarrow> 'f vec3 \<Rightarrow> 'm" where
  "Translate N p = glm_translate N p"

definition model_matrix :: "('f, 'm) numerics \<Rightarrow> 'f vec3 \<Rightarrow> 'f \<Rightarrow> 'f \<Rightarrow> 'f \<Rightarrow> 'f vec3 \<Rightarrow> 'm" where
  "model_matrix N s rotX rotY rotZ p =
     mat_mul N (mat_mul N (mat_mul N (mat_mul N (Translate N p) (RotateZ N rotZ)) (RotateY N rotY))
       (RotateX N rotX)) (Scale N s)"

text \<open>
  A run of registrations that all succeed: \<open>load_all\<close> calls \<^verbatim>\<open>CreateGLTexture\<close> on each
  file and tag in turn and gives the handles that \<^verbatim>\<open>glGenTextures\<close> returned, in
  order, with the final state; it is \<open>None\<close> as soon as a call returns false or faults.
\<close>

fun load_all ::
  "env \<Rightarrow> (string \<times> string) list \<Rightarrow> ('f, 'm) world \<Rightarrow> (GLuint list \<times> ('f, 'm) world) option" where
  "load_all e [] w = Some ([], w)"
| "load_all e ((filename, t) # rest) w =
     (case CreateGLTexture e filename t w of
        Inr (True, w') \<Rightarrow>
          (case load_all e rest w' of
             Some (hs, w'') \<Rightarrow> Some (gen_name e (gl w) # hs, w'')
           | None \<Rightarrow> None)
      | _ \<Rightarrow> None)"

text \<open>
  What a list of OpenGL calls leaves bound: \<^verbatim>\<open>glActiveTexture\<close> selects the texture
  unit, \<^verbatim>\<open>glBindTexture\<close> binds a texture to the selected unit. Initially unit 0 is
  selected and every unit holds the default texture 0.
\<close>

fun gl_exec :: "nat \<times> (nat \<Rightarrow> GLuint) \<Rightarrow> gl_call \<Rightarrow> nat \<times> (nat \<Rightarrow> GLuint)" where
  "gl_exec (active, bound) (glActiveTexture i) = (i, bound)"
| "gl_exec (active, bound) (glBindTexture h) = (active, bound(active := h))"
| "gl_exec (active, bound) _ = (active, bound)"

definition bound_texture :: "gl_call list \<Rightarrow> nat \<Rightarrow> GLuint" where
  "bound_texture calls = snd (foldl gl_exec (0, \<lambda>_. 0) calls)"

definition is_delete :: "gl_call \<Rightarrow> bool" where
  "is_delete c = (case c of glDeleteTextures h \<Rightarrow> True | _ \<Rightarrow> False)"

text \<open>The names that \<open>n\<close> successive calls of \<^verbatim>\<open>glGenTextures\<close> return.\<close>

fun fresh_names :: "env \<Rightarrow> gl_call list \<Rightarrow> nat \<Rightarrow> GLuint list" where
  "fresh_names e calls 0 = []"
| "fresh_names e calls (Suc n) =
     gen_name e calls # fresh_names e (calls @ [glGenTextures (gen_name e calls)]) n"

text \<open>The update of the spotlight by the flicker multiplier, as two uniform pushes.\<close>

definition flicker_diffuse :: "('f, 'm) numerics \<Rightarrow> 'f \<Rightarrow> 'f vec3" where
  "flicker_diffuse N time =
     vec3_times N (flit N (9 / 10), flit N (55 / 100), flit N (2 / 10)) (flicker_of N time)"

definition flicker_ambient :: "('f, 'm) numerics \<Rightarrow> 'f \<Rightarrow> 'f vec3" where
  "flicker_ambient N time =
     vec3_times N (flit N (8 / 100), flit N (5 / 100), flit N (2 / 100)) (flicker_of N time)"

definition update_flicker :: "('f, 'm) numerics \<Rightarrow> 'f \<Rightarrow> ('f, 'm) world \<Rightarrow> fault + ('f, 'm) world" where
  "update_flicker N time w =
     and_then (deref_shader (setVec3Value ''spotLight.diffuse'' (flicker_diffuse N time)) w)
       (deref_shader (setVec3Value ''spotLight.ambient'' (flicker_ambient N time)))"

text \<open>A list of routines called one after the other, stopping at a fault.\<close>

fun run_all ::
  "(routine \<Rightarrow> ('f, 'm) world \<Rightarrow> fault + ('f, 'm) world) \<Rightarrow> routine list \<Rightarrow>
   ('f, 'm) world \<Rightarrow> fault + ('f, 'm) world" where
  "run_all run [] w = Inr w"
| "run_all run (r # rs) w = and_then (run r w) (run_all run rs)"

definition render_order :: "routine list" where
  "render_order =
     [RenderFloor, RenderBackWall, RenderRightWall, RenderTable, RenderClock,
      RenderWineBottle, RenderCandle, RenderLeftChair, RenderRightChair,
      RenderLeftWineGlass, RenderRightWineGlass, RenderLeftPlate, RenderRightPlate,
      RenderLeftFork, RenderRightFork]"

subsection \<open>Concrete inputs\<close>

text \<open>
  The free interpretation of the arithmetic: a number is the expression that computes
  it. Running a method on it shows which operations the method applies, in which
  order, to which arguments.
\<close>

datatype flt = Lit rat | Var string | Fadd flt flt | Fmul flt flt | Fsin flt | Radians flt

datatype mat = MScale "flt vec3" | MRotate flt "flt vec3" | MTranslate "flt vec3" | MMul mat mat

definition symbolic :: "(flt, mat) numerics" where
  "symbolic =
     \<lparr>flit = Lit, fadd = Fadd, fmul = Fmul, fsin = Fsin, glm_radians = Radians,
      glm_scale = MScale, glm_rotate = MRotate, glm_translate = MTranslate, mat_mul = MMul\<rparr>"

definition no_uniforms :: "(flt, mat) ShaderManager" where
  "no_uniforms = \<lparr>uniforms = []\<rparr>"

definition rgb_image :: image where
  "rgb_image = \<lparr>width = 2, height = 2, colorChannels = 3, pixels = replicate 12 0\<rparr>"

definition grey_image :: image where
  "grey_image = \<lparr>width = 2, height = 2, colorChannels = 1, pixels = replicate 4 0\<rparr>"

text \<open>
  A file system in which \<^verbatim>\<open>textures/grey.png\<close> is a one-channel image and every other
  file a three-channel one, and a driver that numbers the textures from 1.
\<close>

definition demo_env :: env where
  "demo_env =
     \<lparr>stbi_load = (\<lambda>f. if f = ''textures/grey.png'' then Some grey_image else Some rgb_image),
      gen_name = (\<lambda>calls. of_nat (length (filter (\<lambda>c. case c of glGenTextures h \<Rightarrow> True | _ \<Rightarrow> False) calls)) + 1)\<rparr>"

definition fresh_scene :: "(flt, mat) world" where
  "fresh_scene = SceneManager (Some no_uniforms) 0 []"

definition detached_scene :: "(flt, mat) world" where
  "detached_scene = DefineObjectMaterials symbolic (SceneManager None 0 [])"

definition blank_material :: "flt OBJECT_MATERIAL" where
  "blank_material =
     \<lparr>diffuseColor = (Var ''d0'', Var ''d1'', Var ''d2''),
      specularColor = (Var ''s0'', Var ''s1'', Var ''s2''),
      shininess = Var ''sh'', mtag = []\<rparr>"

text \<open>
  The scene after \<open>scene_textures\<close> have been loaded into a fresh manager and the
  materials defined, as \<^verbatim>\<open>PrepareScene\<close> does; \<open>scene_registry\<close> is the registry this
  gives under \<open>demo_env\<close>.
\<close>

definition loaded_scene :: "(flt, mat) world" where
  "loaded_scene =
     (case load_all demo_env scene_textures fresh_scene of
        Some (hs, w) \<Rightarrow> DefineObjectMaterials symbolic w
      | None \<Rightarrow> fresh_scene)"

definition scene_registry :: "TEXTURE_INFO list" where
  "scene_registry =
     [\<lparr>tag = ''floor_tile'', ID = 1\<rparr>, \<lparr>tag = ''clock_face'', ID = 2\<rparr>,
      \<lparr>tag = ''clock_side'', ID = 3\<rparr>, \<lparr>tag = ''candle_side'', ID = 4\<rparr>,
      \<lparr>tag = ''candle_top'', ID = 5\<rparr>, \<lparr>tag = ''baseboard'', ID = 6\<rparr>,
      \<lparr>tag = ''wine_lable'', ID = 7\<rparr>, \<lparr>tag = ''wine_cap'', ID = 8\<rparr>,
      \<lparr>tag = ''chair_cushion'', ID = 9\<rparr>, \<lparr>tag = ''pasta'', ID = 10\<rparr>,
      \<lparr>tag = ''meatball'', ID = 11\<rparr>, \<lparr>tag = ''metal_fork'', ID = 12\<rparr>,
      \<lparr>tag = ''/0'', ID = - 1\<rparr>, \<lparr>tag = ''/0'', ID = - 1\<rparr>,
      \<lparr>tag = ''/0'', ID = - 1\<rparr>, \<lparr>tag = ''/0'', ID = - 1\<rparr>]"

definition registry_of ::
  "GLuint list \<times> ('f, 'm) world \<Rightarrow> GLuint list \<times> nat \<times> TEXTURE_INFO list" where
  "registry_of r = (fst r, m_loadedTextures (snd r), m_textureIDs (snd r))"

text \<open>A manager with two textures loaded, and sixteen registrations that fill the array.\<close>

definition two_loaded :: "(flt, mat) world" where
  "two_loaded =
     (case load_all demo_env (take 2 scene_textures) fresh_scene of
        Some (hs, w) \<Rightarrow> w
      | None \<Rightarrow> fresh_scene)"

definition sixteen_textures :: "(string \<times> string) list" where
  "sixteen_textures =
     scene_textures @
     [(''textures/a.png'', ''extra_a''), (''textures/b.png'', ''extra_b''),
      (''textures/c.png'', ''extra_c''), (''textures/d.png'', ''extra_d'')]"

text \<open>A routine body that only leaves its name in the shader, as an integer uniform.\<close>

fun routine_name :: "routine \<Rightarrow> string" where
  "routine_name RenderFloor = ''RenderFloor''"
| "routine_name RenderBackWall = ''RenderBackWall''"
| "routine_name RenderRightWall = ''RenderRightWall''"
| "routine_name RenderTable = ''RenderTable''"
| "routine_name RenderClock = ''RenderClock''"
| "routine_name RenderWineBottle = ''RenderWineBottle''"
| "routine_name RenderCandle = ''RenderCandle''"
| "routine_name RenderLeftChair = ''RenderLeftChair''"
| "routine_name RenderRightChair = ''RenderRightChair''"
| "routine_name RenderLeftWineGlass = ''RenderLeftWineGlass''"
| "routine_name RenderRightWineGlass = ''RenderRightWineGlass''"
| "routine_name RenderLeftPlate = ''RenderLeftPlate''"
| "routine_name RenderRightPlate = ''RenderRightPlate''"
| "routine_name RenderLeftFork = ''RenderLeftFork''"
| "routine_name RenderRightFork = ''RenderRightFork''"

definition leave_name :: "routine \<Rightarrow> (flt, mat) world \<Rightarrow> fault + (flt, mat) world" where
  "leave_name r = deref_shader (setIntValue (routine_name r) 0)"

subsection \<open>Single precision arithmetic\<close>

text \<open>
  An interpretation of the arithmetic in IEEE 754 binary32. A number is the rational it
  denotes. \<open>round_binary32\<close> rounds a rational to the nearest number with a 24-bit
  significand, ties to the even significand; below \<open>2 powi (- 126)\<close> the spacing stays
  that of the subnormal numbers. The exponent is not bounded above: overflow to
  infinity is outside the model, and so are the times (beyond \<open>2 ^ 100\<close> seconds) at
  which the program would meet it.
\<close>

definition round_half_even :: "rat \<Rightarrow> int" where
  "round_half_even y =
     (let f = \<lfloor>y\<rfloor>; d = y - of_int f
      in if d < 1 / 2 then f else if 1 / 2 < d then f + 1 else if even f then f else f + 1)"

function bit_length :: "int \<Rightarrow> int" where
  "bit_length n = (if 0 < n then 1 + bit_length (n div 2) else 0)"
  by pat_completeness auto
termination
  by (relation "measure nat") auto

text \<open>The exponent \<open>e\<close> with \<open>2 powi e \<le> \<bar>x\<bar> < 2 powi (e + 1)\<close>, for \<open>x\<close> other than 0.\<close>

definition binade :: "rat \<Rightarrow> int" where
  "binade x =
     (case quotient_of \<bar>x\<bar> of (p, q) \<Rightarrow>
        let d = bit_length p - bit_length q
        in if 2 powi d \<le> \<bar>x\<bar> then d else d - 1)"

definition binary32_exponent :: "rat \<Rightarrow> int" where
  "binary32_exponent x = max (binade x) (- 126)"

definition round_binary32 :: "rat \<Rightarrow> rat" where
  "round_binary32 x =
     (if x = 0 then 0
      else let ulp = 2 powi (binary32_exponent x - 23)
           in of_int (round_half_even (x / ulp)) * ulp)"

text \<open>
  A literal denotes the nearest binary32 number, and the sum and the product are the
  rounded exact results. The sine is the one of the C library, an argument of the
  interpretation. \<^verbatim>\<open>glm::radians\<close> multiplies by the constant of GLM, rounded to
  single precision. The matrices play no part in what is computed here and carry no
  information.
\<close>

definition binary32 :: "(rat \<Rightarrow> rat) \<Rightarrow> (rat, unit) numerics" where
  "binary32 libm_sin =
     \<lparr>flit = round_binary32,
      fadd = (\<lambda>x y. round_binary32 (x + y)),
      fmul = (\<lambda>x y. round_binary32 (x * y)),
      fsin = libm_sin,
      glm_radians = (\<lambda>degrees. round_binary32 (degrees *
         round_binary32 (1745329251994329576923690768489 / 100000000000000000000000000000000))),
      glm_scale = (\<lambda>v. ()),
      glm_rotate = (\<lambda>angle axis. ()),
      glm_translate = (\<lambda>v. ()),
      mat_mul = (\<lambda>a b. ())\<rparr>"

text \<open>
  A sine that returns -1. This is the binary32 number nearest to the sine of
  \<open>2470649 / 524288\<close>, the binary32 number nearest to three halves of pi, which is the
  argument the program reaches at the time \<open>2635359 / 8388608\<close>.
\<close>

definition sine_minus_one :: "rat \<Rightarrow> rat" where
  "sine_minus_one x = - 1"

text \<open>Exact arithmetic on the reals, with the mathematical sine.\<close>

definition exact_arithmetic :: "(real, unit) numerics" where
  "exact_arithmetic =
     \<lparr>flit = of_rat,
      fadd = (+),
      fmul = (*),
      fsin = sin,
      glm_radians = (\<lambda>degrees. degrees * pi / 180),
      glm_scale = (\<lambda>v. ()),
      glm_rotate = (\<lambda>angle axis. ()),
      glm_translate = (\<lambda>v. ()),
      mat_mul = (\<lambda>a b. ())\<rparr>"

section \<open>Properties\<close>

declare FindTextureID_loop.simps [simp del]
declare FindTextureSlot_loop.simps [simp del]
declare FindMaterial_loop.simps [simp del]
declare BindGLTextures_loop.simps [simp del]
declare DestroyGLTextures_loop.simps [simp del]
declare SceneManager_init.simps [simp del]

subsection \<open>The lookup loops\<close>

text \<open>
  Each loop is characterised twice: when no entry from the current index on carries
  the tag, and when the first such entry is at index \<open>k\<close>.
\<close>

lemma FindTextureSlot_loop_found:
  "FindTextureSlot_loop w t index True r = Inr r"
  by (subst FindTextureSlot_loop.simps) simp

lemma FindTextureSlot_loop_miss:
  assumes "m_loadedTextures w \<le> length (m_textureIDs w)"
    and "\<And>j. i \<le> j \<Longrightarrow> j < m_loadedTextures w \<Longrightarrow> tag (m_textureIDs w ! j) \<noteq> t"
  shows "FindTextureSlot_loop w t i False r = Inr r"
  using assms
proof (induction "m_loadedTextures w - i" arbitrary: i)
  case 0
  then show ?case by (subst FindTextureSlot_loop.simps) simp
next
  case (Suc d)
  then have "i < m_loadedTextures w" by simp
  moreover have "FindTextureSlot_loop w t (i + 1) False r = Inr r"
    using Suc by (intro Suc.hyps(1)) auto
  ultimately show ?case
    using Suc.prems by (subst FindTextureSlot_loop.simps) auto
qed

lemma FindTextureSlot_loop_first:
  assumes "m_loadedTextures w \<le> length (m_textureIDs w)"
    and "i \<le> k" and "k < m_loadedTextures w"
    and "tag (m_textureIDs w ! k) = t"
    and "\<And>j. i \<le> j \<Longrightarrow> j < k \<Longrightarrow> tag (m_textureIDs w ! j) \<noteq> t"
  shows "FindTextureSlot_loop w t i False r = Inr (int k)"
  using assms
proof (induction "k - i" arbitrary: i)
  case 0
  then have "i = k" by simp
  with 0 show ?case
    by (subst FindTextureSlot_loop.simps) (simp add: FindTextureSlot_loop_found)
next
  case (Suc d)
  then have lt: "i < k" by simp
  have "FindTextureSlot_loop w t (i + 1) False r = Inr (int k)"
    using Suc lt by (intro Suc.hyps(1)) auto
  moreover have "tag (m_textureIDs w ! i) \<noteq> t"
    using Suc.prems lt by simp
  ultimately show ?case
    using Suc.prems lt by (subst FindTextureSlot_loop.simps) auto
qed

lemma FindTextureID_loop_found:
  "FindTextureID_loop w t index True r = Inr r"
  by (subst FindTextureID_loop.simps) simp

lemma FindTextureID_loop_miss:
  assumes "m_loadedTextures w \<le> length (m_textureIDs w)"
    and "\<And>j. i \<le> j \<Longrightarrow> j < m_loadedTextures w \<Longrightarrow> tag (m_textureIDs w ! j) \<noteq> t"
  shows "FindTextureID_loop w t i False r = Inr r"
  using assms
proof (induction "m_loadedTextures w - i" arbitrary: i)
  case 0
  then show ?case by (subst FindTextureID_loop.simps) simp
next
  case (Suc d)
  then have "i < m_loadedTextures w" by simp
  moreover have "FindTextureID_loop w t (i + 1) False r = Inr r"
    using Suc by (intro Suc.hyps(1)) auto
  ultimately show ?case
    using Suc.prems by (subst FindTextureID_loop.simps) auto
qed

lemma FindTextureID_loop_first:
  assumes "m_loadedTextures w \<le> length (m_textureIDs w)"
    and "i \<le> k" and "k < m_loadedTextures w"
    and "tag (m_textureIDs w ! k) = t"
    and "\<And>j. i \<le> j \<Longrightarrow> j < k \<Longrightarrow> tag (m_textureIDs w ! j) \<noteq> t"
  shows "FindTextureID_loop w t i False r = Inr (sint (ID (m_textureIDs w ! k)))"
  using assms
proof (induction "k - i" arbitrary: i)
  case 0
  then have "i = k" by simp
  with 0 show ?case
    by (subst FindTextureID_loop.simps) (simp add: FindTextureID_loop_found)
next
  case (Suc d)
  then have lt: "i < k" by simp
  have "FindTextureID_loop w t (i + 1) False r = Inr (sint (ID (m_textureIDs w ! k)))"
    using Suc lt by (intro Suc.hyps(1)) auto
  moreover have "tag (m_textureIDs w ! i) \<noteq> t"
    using Suc.prems lt by simp
  ultimately show ?case
    using Suc.prems lt by (subst FindTextureID_loop.simps) auto
qed

lemma FindMaterial_loop_found:
  "FindMaterial_loop ms t index True m = m"
  by (subst FindMaterial_loop.simps) simp

lemma FindMaterial_loop_miss:
  assumes "\<And>j. i \<le> j \<Longrightarrow> j < length ms \<Longrightarrow> mtag (ms ! j) \<noteq> t"
  shows "FindMaterial_loop ms t i False m = m"
  using assms
proof (induction "length ms - i" arbitrary: i)
  case 0
  then show ?case by (subst FindMaterial_loop.simps) simp
next
  case (Suc d)
  then have "i < length ms" by simp
  moreover have "FindMaterial_loop ms t (i + 1) False m = m"
    using Suc by (intro Suc.hyps(1)) auto
  ultimately show ?case
    using Suc.prems by (subst FindMaterial_loop.simps) auto
qed

lemma FindMaterial_loop_first:
  assumes "i \<le> k" and "k < length ms"
    and "mtag (ms ! k) = t"
    and "\<And>j. i \<le> j \<Longrightarrow> j < k \<Longrightarrow> mtag (ms ! j) \<noteq> t"
  shows "FindMaterial_loop ms t i False m =
           m\<lparr>diffuseColor := diffuseColor (ms ! k),
             specularColor := specularColor (ms ! k),
             shininess := shininess (ms ! k)\<rparr>"
  using assms
proof (induction "k - i" arbitrary: i)
  case 0
  then have "i = k" by simp
  with 0 show ?case
    by (subst FindMaterial_loop.simps) (simp add: FindMaterial_loop_found)
next
  case (Suc d)
  then have lt: "i < k" by simp
  have "FindMaterial_loop ms t (i + 1) False m =
           m\<lparr>diffuseColor := diffuseColor (ms ! k),
             specularColor := specularColor (ms ! k),
             shininess := shininess (ms ! k)\<rparr>"
    using Suc lt by (intro Suc.hyps(1)) auto
  moreover have "mtag (ms ! i) \<noteq> t"
    using Suc.prems lt by simp
  ultimately show ?case
    using Suc.prems lt by (subst FindMaterial_loop.simps) auto
qed

lemma take_all_nth:
  "k \<le> length xs \<Longrightarrow> (\<forall>x \<in> set (take k xs). P x) = (\<forall>j < k. P (xs ! j))"
  by (simp add: all_set_conv_all_nth)

subsection \<open>Constructor and registration\<close>

lemma SceneManager_init_fill:
  "i \<le> 16 \<Longrightarrow> length arr = 16 \<Longrightarrow>
   SceneManager_init i arr = take i arr @ replicate (16 - i) \<lparr>tag = ''/0'', ID = - 1\<rparr>"
proof (induction i arr rule: SceneManager_init.induct)
  case (1 i arr)
  show ?case
  proof (cases "i < 16")
    case True
    then have "SceneManager_init i arr =
        take (i + 1) (arr[i := \<lparr>tag = ''/0'', ID = - 1\<rparr>]) @
        replicate (16 - (i + 1)) \<lparr>tag = ''/0'', ID = - 1\<rparr>"
      using 1 by (subst SceneManager_init.simps) simp
    also have "take (i + 1) (arr[i := \<lparr>tag = ''/0'', ID = - 1\<rparr>]) =
        take i arr @ [\<lparr>tag = ''/0'', ID = - 1\<rparr>]"
      using True 1(3) by (simp add: take_Suc_conv_app_nth)
    also have "(take i arr @ [\<lparr>tag = ''/0'', ID = - 1\<rparr>]) @
        replicate (16 - (i + 1)) \<lparr>tag = ''/0'', ID = - 1\<rparr> =
        take i arr @ replicate (16 - i) \<lparr>tag = ''/0'', ID = - 1\<rparr>"
      using True by (simp add: replicate_app_Cons_same flip: replicate_Suc)
    finally show ?thesis .
  next
    case False
    then show ?thesis using 1(2,3) by (subst SceneManager_init.simps) simp
  qed
qed

lemma SceneManager_textureIDs:
  "m_textureIDs (SceneManager pShaderManager junk ctx) = replicate 16 \<lparr>tag = ''/0'', ID = - 1\<rparr>"
  by (simp add: SceneManager_def SceneManager_init_fill raw_textureIDs_def)

lemma registry_ok_SceneManager: "registry_ok (SceneManager pShaderManager junk ctx)"
  by (simp add: registry_ok_def SceneManager_textureIDs) (simp add: SceneManager_def)

lemma CreateGLTexture_success:
  assumes "CreateGLTexture e filename t w = Inr (True, w')"
  shows "m_loadedTextures w < length (m_textureIDs w) \<and>
         m_textureIDs w' = (m_textureIDs w)[m_loadedTextures w := \<lparr>tag = t, ID = gen_name e (gl w)\<rparr>] \<and>
         m_loadedTextures w' = Suc (m_loadedTextures w)"
  using assms
  by (auto simp: CreateGLTexture_def CreateGLTexture_register_def Let_def
      split: option.splits if_splits)

lemma CreateGLTexture_keeps:
  "CreateGLTexture e filename t w = Inr (b, w') \<Longrightarrow>
   m_objectMaterials w' = m_objectMaterials w \<and> m_pShaderManager w' = m_pShaderManager w"
  by (auto simp: CreateGLTexture_def CreateGLTexture_register_def Let_def
      split: option.splits if_splits)

lemma CreateGLTexture_registry_ok:
  "registry_ok w \<Longrightarrow> CreateGLTexture e filename t w = Inr (b, w') \<Longrightarrow> registry_ok w'"
  by (auto simp: CreateGLTexture_def CreateGLTexture_register_def Let_def registry_ok_def
      split: option.splits if_splits)

lemma load_all_Cons:
  assumes "load_all e ((filename, t) # rest) w = Some (hs, w')"
  obtains w1 hs' where "CreateGLTexture e filename t w = Inr (True, w1)"
    and "load_all e rest w1 = Some (hs', w')" and "hs = gen_name e (gl w) # hs'"
  using assms by (auto split: sum.splits bool.splits option.splits prod.splits)

lemma load_all_count:
  "load_all e regs w = Some (hs, w') \<Longrightarrow>
   length hs = length regs \<and> m_loadedTextures w' = m_loadedTextures w + length regs \<and>
   length (m_textureIDs w') = length (m_textureIDs w)"
proof (induction regs arbitrary: w hs)
  case Nil
  then show ?case by simp
next
  case (Cons reg regs)
  obtain filename t where reg: "reg = (filename, t)" by (cases reg)
  from Cons.prems obtain w1 hs' where
    step: "CreateGLTexture e filename t w = Inr (True, w1)"
    and rest: "load_all e regs w1 = Some (hs', w')" and hs: "hs = gen_name e (gl w) # hs'"
    unfolding reg by (rule load_all_Cons)
  from Cons.IH [OF rest] CreateGLTexture_success [OF step] hs show ?case by simp
qed

lemma load_all_keeps:
  "load_all e regs w = Some (hs, w') \<Longrightarrow>
   m_objectMaterials w' = m_objectMaterials w \<and> m_pShaderManager w' = m_pShaderManager w"
proof (induction regs arbitrary: w hs)
  case Nil
  then show ?case by simp
next
  case (Cons reg regs)
  obtain filename t where reg: "reg = (filename, t)" by (cases reg)
  from Cons.prems obtain w1 hs' where
    step: "CreateGLTexture e filename t w = Inr (True, w1)"
    and rest: "load_all e regs w1 = Some (hs', w')"
    unfolding reg by (rule load_all_Cons)
  from Cons.IH [OF rest] CreateGLTexture_keeps [OF step] show ?case by simp
qed

lemma load_all_bound:
  "load_all e regs w = Some (hs, w') \<Longrightarrow> m_loadedTextures w \<le> length (m_textureIDs w) \<Longrightarrow>
   m_loadedTextures w' \<le> length (m_textureIDs w')"
proof (induction regs arbitrary: w hs)
  case Nil
  then show ?case by simp
next
  case (Cons reg regs)
  obtain filename t where reg: "reg = (filename, t)" by (cases reg)
  from Cons.prems(1) obtain w1 hs' where
    step: "CreateGLTexture e filename t w = Inr (True, w1)"
    and rest: "load_all e regs w1 = Some (hs', w')"
    unfolding reg by (rule load_all_Cons)
  have "m_loadedTextures w1 \<le> length (m_textureIDs w1)"
    using CreateGLTexture_success [OF step] by simp
  then show ?case by (rule Cons.IH [OF rest])
qed

lemma load_all_prefix:
  "load_all e regs w = Some (hs, w') \<Longrightarrow> j < m_loadedTextures w \<Longrightarrow>
   m_textureIDs w' ! j = m_textureIDs w ! j"
proof (induction regs arbitrary: w hs)
  case Nil
  then show ?case by simp
next
  case (Cons reg regs)
  obtain filename t where reg: "reg = (filename, t)" by (cases reg)
  from Cons.prems(1) obtain w1 hs' where
    step: "CreateGLTexture e filename t w = Inr (True, w1)"
    and rest: "load_all e regs w1 = Some (hs', w')"
    unfolding reg by (rule load_all_Cons)
  have "m_textureIDs w' ! j = m_textureIDs w1 ! j"
    using Cons.IH [OF rest] CreateGLTexture_success [OF step] Cons.prems(2) by simp
  also have "\<dots> = m_textureIDs w ! j"
    using CreateGLTexture_success [OF step] Cons.prems(2) by simp
  finally show ?case .
qed

lemma load_all_entry:
  "load_all e regs w = Some (hs, w') \<Longrightarrow> k < length regs \<Longrightarrow>
   m_textureIDs w' ! (m_loadedTextures w + k) = \<lparr>tag = snd (regs ! k), ID = hs ! k\<rparr>"
proof (induction regs arbitrary: w hs k)
  case Nil
  then show ?case by simp
next
  case (Cons reg regs)
  obtain filename t where reg: "reg = (filename, t)" by (cases reg)
  from Cons.prems(1) obtain w1 hs' where
    step: "CreateGLTexture e filename t w = Inr (True, w1)"
    and rest: "load_all e regs w1 = Some (hs', w')" and hs: "hs = gen_name e (gl w) # hs'"
    unfolding reg by (rule load_all_Cons)
  note s = CreateGLTexture_success [OF step]
  show ?case
  proof (cases k)
    case 0
    have "m_textureIDs w' ! m_loadedTextures w = m_textureIDs w1 ! m_loadedTextures w"
      using load_all_prefix [OF rest, of "m_loadedTextures w"] s by simp
    then show ?thesis using 0 s hs reg by simp
  next
    case (Suc k')
    then have "k' < length regs" using Cons.prems(2) by simp
    from Cons.IH [OF rest this] show ?thesis using Suc s hs by simp
  qed
qed

text \<open>
  Registrations do succeed: as long as there is room in the array and every file
  decodes to three or four channels, \<open>load_all\<close> returns.
\<close>

lemma load_all_succeeds:
  "m_loadedTextures w + length regs \<le> length (m_textureIDs w) \<Longrightarrow>
   \<forall>(filename, t) \<in> set regs. \<exists>img. stbi_load e filename = Some img \<and>
      (colorChannels img = 3 \<or> colorChannels img = 4) \<Longrightarrow>
   \<exists>hs w'. load_all e regs w = Some (hs, w')"
proof (induction regs arbitrary: w)
  case Nil
  then show ?case by simp
next
  case (Cons reg regs)
  obtain filename t where reg: "reg = (filename, t)" by (cases reg)
  from Cons.prems(2) obtain img where img: "stbi_load e filename = Some img"
    "colorChannels img = 3 \<or> colorChannels img = 4"
    unfolding reg by auto
  have room: "m_loadedTextures w < length (m_textureIDs w)"
    using Cons.prems(1) by simp
  obtain w1 where step: "CreateGLTexture e filename t w = Inr (True, w1)"
    using img room by (auto simp: CreateGLTexture_def CreateGLTexture_register_def Let_def)
  have "m_loadedTextures w1 + length regs \<le> length (m_textureIDs w1)"
    using CreateGLTexture_success [OF step] Cons.prems(1) by simp
  moreover have "\<forall>(filename, t) \<in> set regs. \<exists>img. stbi_load e filename = Some img \<and>
      (colorChannels img = 3 \<or> colorChannels img = 4)"
    using Cons.prems(2) by simp
  ultimately obtain hs' w' where "load_all e regs w1 = Some (hs', w')"
    using Cons.IH by blast
  then show ?case using step reg by simp
qed

subsection \<open>Binding and regenerating\<close>

lemma BindGLTextures_loop_calls:
  "m_loadedTextures w \<le> length (m_textureIDs w) \<Longrightarrow> i \<le> m_loadedTextures w \<Longrightarrow>
   BindGLTextures_loop i w =
     Inr (w\<lparr>gl := gl w @ concat (map (\<lambda>j. [glActiveTexture j, glBindTexture (ID (m_textureIDs w ! j))])
                                  [i..<m_loadedTextures w])\<rparr>)"
proof (induction i w rule: BindGLTextures_loop.induct)
  case (1 i w)
  show ?case
  proof (cases "i < m_loadedTextures w")
    case True
    let ?w1 = "w\<lparr>gl := gl w @ [glActiveTexture i, glBindTexture (ID (m_textureIDs w ! i))]\<rparr>"
    have in_range: "i < length (m_textureIDs w)" using True 1(2) by simp
    have "BindGLTextures_loop i w = BindGLTextures_loop (i + 1) ?w1"
      using True in_range by (subst BindGLTextures_loop.simps) simp
    also have "\<dots> = Inr (?w1\<lparr>gl := gl ?w1 @
        concat (map (\<lambda>j. [glActiveTexture j, glBindTexture (ID (m_textureIDs ?w1 ! j))])
          [i + 1..<m_loadedTextures ?w1])\<rparr>)"
      using True in_range 1(2) by (intro 1(1)) simp_all
    finally show ?thesis
      using True by (simp add: upt_conv_Cons)
  next
    case False
    then show ?thesis using 1(3) by (subst BindGLTextures_loop.simps) simp
  qed
qed

lemma gl_exec_bind_run:
  "foldl gl_exec (active, bound) (concat (map (\<lambda>j. [glActiveTexture j, glBindTexture (h j)]) [i..<n])) =
     (if i < n then n - 1 else active, \<lambda>u. if i \<le> u \<and> u < n then h u else bound u)"
proof (induction n)
  case 0
  then show ?case by simp
next
  case (Suc n)
  show ?case
  proof (cases "i \<le> n")
    case True
    then show ?thesis using Suc by (auto simp: fun_eq_iff)
  next
    case False
    then show ?thesis by (auto simp: fun_eq_iff)
  qed
qed

lemma bound_texture_after_bind:
  assumes "k < n"
  shows "bound_texture (calls @ concat (map (\<lambda>j. [glActiveTexture j, glBindTexture (h j)]) [0..<n])) k = h k"
proof -
  obtain active bound where st: "foldl gl_exec (0, \<lambda>_. 0) calls = (active, bound)"
    by (cases "foldl gl_exec (0, \<lambda>_. 0) calls")
  show ?thesis
    using assms by (simp add: bound_texture_def st gl_exec_bind_run)
qed

lemma DestroyGLTextures_loop_effect:
  "m_loadedTextures w \<le> length (m_textureIDs w) \<Longrightarrow> i \<le> m_loadedTextures w \<Longrightarrow>
   \<exists>w'. DestroyGLTextures_loop e i w = Inr w' \<and>
     gl w' = gl w @ map glGenTextures (fresh_names e (gl w) (m_loadedTextures w - i)) \<and>
     m_loadedTextures w' = m_loadedTextures w \<and>
     length (m_textureIDs w') = length (m_textureIDs w) \<and>
     (\<forall>j. i \<le> j \<and> j < m_loadedTextures w \<longrightarrow>
        m_textureIDs w' ! j =
          (m_textureIDs w ! j)\<lparr>ID := fresh_names e (gl w) (m_loadedTextures w - i) ! (j - i)\<rparr>) \<and>
     (\<forall>j. j < i \<or> m_loadedTextures w \<le> j \<longrightarrow> m_textureIDs w' ! j = m_textureIDs w ! j)"
proof (induction e i w rule: DestroyGLTextures_loop.induct)
  case (1 e i w)
  show ?case
  proof (cases "i < m_loadedTextures w")
    case False
    then show ?thesis using 1(3) by (subst DestroyGLTextures_loop.simps) auto
  next
    case True
    define h where "h = gen_name e (gl w)"
    define w1 where "w1 = w\<lparr>gl := gl w @ [glGenTextures h],
        m_textureIDs := (m_textureIDs w)[i := (m_textureIDs w ! i)\<lparr>ID := h\<rparr>]\<rparr>"
    have in_range: "i < length (m_textureIDs w)" using True 1(2) by simp
    have unfold: "DestroyGLTextures_loop e i w = DestroyGLTextures_loop e (i + 1) w1"
      using True in_range by (subst DestroyGLTextures_loop.simps) (simp add: w1_def h_def)
    have w1: "m_loadedTextures w1 = m_loadedTextures w" "length (m_textureIDs w1) = length (m_textureIDs w)"
      "gl w1 = gl w @ [glGenTextures h]"
      "m_textureIDs w1 = (m_textureIDs w)[i := (m_textureIDs w ! i)\<lparr>ID := h\<rparr>]"
      by (simp_all add: w1_def)
    have "\<exists>w'. DestroyGLTextures_loop e (i + 1) w1 = Inr w' \<and>
       gl w' = gl w1 @ map glGenTextures (fresh_names e (gl w1) (m_loadedTextures w1 - (i + 1))) \<and>
       m_loadedTextures w' = m_loadedTextures w1 \<and>
       length (m_textureIDs w') = length (m_textureIDs w1) \<and>
       (\<forall>j. i + 1 \<le> j \<and> j < m_loadedTextures w1 \<longrightarrow>
          m_textureIDs w' ! j =
            (m_textureIDs w1 ! j)\<lparr>ID := fresh_names e (gl w1) (m_loadedTextures w1 - (i + 1)) ! (j - (i + 1))\<rparr>) \<and>
       (\<forall>j. j < i + 1 \<or> m_loadedTextures w1 \<le> j \<longrightarrow> m_textureIDs w' ! j = m_textureIDs w1 ! j)"
      using True in_range 1(2) unfolding w1_def h_def by (intro 1(1)) simp_all
    then obtain w' where run: "DestroyGLTextures_loop e (i + 1) w1 = Inr w'"
      and calls: "gl w' = gl w1 @ map glGenTextures (fresh_names e (gl w1) (m_loadedTextures w1 - (i + 1)))"
      and count: "m_loadedTextures w' = m_loadedTextures w1"
      and len: "length (m_textureIDs w') = length (m_textureIDs w1)"
      and later: "\<And>j. i + 1 \<le> j \<Longrightarrow> j < m_loadedTextures w1 \<Longrightarrow>
          m_textureIDs w' ! j =
            (m_textureIDs w1 ! j)\<lparr>ID := fresh_names e (gl w1) (m_loadedTextures w1 - (i + 1)) ! (j - (i + 1))\<rparr>"
      and other: "\<And>j. j < i + 1 \<or> m_loadedTextures w1 \<le> j \<Longrightarrow> m_textureIDs w' ! j = m_textureIDs w1 ! j"
      by blast
    have split: "m_loadedTextures w - i = Suc (m_loadedTextures w - (i + 1))"
      using True by simp
    have names: "fresh_names e (gl w) (m_loadedTextures w - i) =
        h # fresh_names e (gl w1) (m_loadedTextures w - (i + 1))"
      unfolding split by (simp add: h_def w1)
    have "gl w' = gl w @ map glGenTextures (fresh_names e (gl w) (m_loadedTextures w - i))"
      using calls by (simp add: names w1)
    moreover have "m_textureIDs w' ! j =
        (m_textureIDs w ! j)\<lparr>ID := fresh_names e (gl w) (m_loadedTextures w - i) ! (j - i)\<rparr>"
      if "i \<le> j" "j < m_loadedTextures w" for j
    proof (cases "j = i")
      case True
      then show ?thesis using other [of i] in_range by (simp add: names w1)
    next
      case False
      then have "i + 1 \<le> j" using that by simp
      moreover from this have "j - i = Suc (j - (i + 1))" by simp
      ultimately show ?thesis using later [of j] that False by (simp add: names w1)
    qed
    moreover have "m_textureIDs w' ! j = m_textureIDs w ! j" if "j < i \<or> m_loadedTextures w \<le> j" for j
      using other [of j] that True by (auto simp: w1)
    ultimately show ?thesis
      using run count len unfold by (auto simp: w1)
  qed
qed

subsection \<open>The concrete scenes\<close>

lemma scene_load_value:
  "map_option registry_of (load_all demo_env scene_textures fresh_scene) =
     Some ([1, 2, 3, 4, 5, 6, 7, 8, 9, 10, 11, 12], 12, scene_registry)"
  by code_simp

lemma scene_load:
  obtains w where "load_all demo_env scene_textures fresh_scene =
      Some ([1, 2, 3, 4, 5, 6, 7, 8, 9, 10, 11, 12], w)"
    and "m_loadedTextures w = 12" and "m_textureIDs w = scene_registry"
  using scene_load_value by (auto simp: registry_of_def)

lemma loaded_scene_fields:
  "m_loadedTextures loaded_scene = 12"
  "m_textureIDs loaded_scene = scene_registry"
  "m_objectMaterials loaded_scene = m_objectMaterials detached_scene"
proof -
  obtain w where w: "load_all demo_env scene_textures fresh_scene =
      Some ([1, 2, 3, 4, 5, 6, 7, 8, 9, 10, 11, 12], w)"
    "m_loadedTextures w = 12" "m_textureIDs w = scene_registry"
    by (rule scene_load)
  have "m_objectMaterials w = []"
    using load_all_keeps [OF w(1)] by (simp add: fresh_scene_def SceneManager_def)
  then show "m_loadedTextures loaded_scene = 12" "m_textureIDs loaded_scene = scene_registry"
    "m_objectMaterials loaded_scene = m_objectMaterials detached_scene"
    using w
    by (simp_all add: loaded_scene_def DefineObjectMaterials_def detached_scene_def SceneManager_def)
qed

lemma two_loaded_value:
  "(m_loadedTextures two_loaded, m_textureIDs two_loaded) =
     (2, [\<lparr>tag = ''floor_tile'', ID = 1\<rparr>, \<lparr>tag = ''clock_face'', ID = 2\<rparr>] @
         replicate 14 \<lparr>tag = ''/0'', ID = - 1\<rparr>) \<and>
   fresh_names demo_env (gl two_loaded) 2 = [3, 4]"
  by code_simp

section \<open>The claims\<close>

subsection \<open>Transform and state setters\<close>

text \<open>
  Claim C1. With a shader attached, \<^verbatim>\<open>SetTransformations\<close> pushes one uniform, named
  \<^verbatim>\<open>model\<close>: the product Translate(position) * RotateZ(rotZ) * RotateY(rotY) *
  RotateX(rotX) * Scale(scale), each rotation taking its angle through the conversion
  from degrees to radians. This holds for every scale, every rotation triple, every
  position and every interpretation of the arithmetic.
\<close>

theorem SetTransformations_model_matrix:
  "m_pShaderManager w = Some sh \<Longrightarrow>
   SetTransformations N scaleXYZ rotX rotY rotZ positionXYZ w =
     w\<lparr>m_pShaderManager := Some (sh\<lparr>uniforms := uniforms sh @
        [(''model'', Mat4Value (model_matrix N scaleXYZ rotX rotY rotZ positionXYZ))]\<rparr>)\<rparr>"
  by (simp add: SetTransformations_def model_matrix_def Translate_def RotateX_def RotateY_def
      RotateZ_def Scale_def setMat4Value_def push_def g_ModelName_def Let_def)

theorem SetTransformations_model_matrix_witness:
  "m_pShaderManager fresh_scene = Some no_uniforms \<and>
   m_pShaderManager
     (SetTransformations symbolic (Var ''sx'', Var ''sy'', Var ''sz'') (Var ''rx'') (Var ''ry'') (Var ''rz'')
        (Var ''px'', Var ''py'', Var ''pz'') fresh_scene) =
   Some \<lparr>uniforms = [(''model'', Mat4Value
     (MMul (MMul (MMul (MMul (MTranslate (Var ''px'', Var ''py'', Var ''pz''))
        (MRotate (Radians (Var ''rz'')) (Lit 0, Lit 0, Lit 1)))
        (MRotate (Radians (Var ''ry'')) (Lit 0, Lit 1, Lit 0)))
        (MRotate (Radians (Var ''rx'')) (Lit 1, Lit 0, Lit 0)))
        (MScale (Var ''sx'', Var ''sy'', Var ''sz''))))]\<rparr>"
  using SetTransformations_model_matrix [of fresh_scene no_uniforms symbolic
      "(Var ''sx'', Var ''sy'', Var ''sz'')" "Var ''rx''" "Var ''ry''" "Var ''rz''"
      "(Var ''px'', Var ''py'', Var ''pz'')"]
  by (simp add: fresh_scene_def SceneManager_def no_uniforms_def model_matrix_def Translate_def
      RotateX_def RotateY_def RotateZ_def Scale_def symbolic_def)

text \<open>
  Claim C10. When the shader pointer is null, \<^verbatim>\<open>SetTransformations\<close>,
  \<^verbatim>\<open>SetShaderColor\<close>, \<^verbatim>\<open>SetShaderTexture\<close> and \<^verbatim>\<open>SetTextureUVScale\<close> return normally
  and leave the state as it was, so they push nothing. \<^verbatim>\<open>SetShaderMaterial\<close> has no
  such test: as soon as a material is defined it goes through the null pointer.
\<close>

theorem null_shader_guards:
  "m_pShaderManager w = None \<Longrightarrow>
   SetTransformations N scaleXYZ rotX rotY rotZ positionXYZ w = w \<and>
   SetShaderColor r g b a w = w \<and>
   SetShaderTexture textureTag w = Inr w \<and>
   SetTextureUVScale u v w = w \<and>
   (m_objectMaterials w \<noteq> [] \<longrightarrow>
      SetShaderMaterial material0 materialTag w = Inl NullDereference)"
  by (simp add: SetTransformations_def SetShaderColor_def SetShaderTexture_def
      SetTextureUVScale_def SetShaderMaterial_def FindMaterial_def deref_shader_def
      and_then_def Let_def)

theorem null_shader_guards_witness:
  "m_pShaderManager detached_scene = None \<and> m_objectMaterials detached_scene \<noteq> [] \<and>
   SetTransformations symbolic (Lit 1, Lit 1, Lit 1) (Lit 0) (Lit 90) (Lit 0) (Lit 0, Lit 0, Lit 0)
     detached_scene = detached_scene \<and>
   SetShaderColor (Lit 1) (Lit 1) (Lit 1) (Lit 1) detached_scene = detached_scene \<and>
   SetShaderTexture ''floor_tile'' detached_scene = Inr detached_scene \<and>
   SetTextureUVScale (Lit 2) (Lit (3 / 2)) detached_scene = detached_scene \<and>
   SetShaderMaterial blank_material ''wood'' detached_scene = Inl NullDereference"
proof -
  have null: "m_pShaderManager detached_scene = None"
    by (simp add: detached_scene_def DefineObjectMaterials_def SceneManager_def)
  have mats: "m_objectMaterials detached_scene \<noteq> []"
    by (simp add: detached_scene_def DefineObjectMaterials_def SceneManager_def)
  show ?thesis
    using null_shader_guards [OF null, of symbolic "(Lit 1, Lit 1, Lit 1)" "Lit 0" "Lit 90" "Lit 0"
        "(Lit 0, Lit 0, Lit 0)" "Lit 1" "Lit 1" "Lit 1" "Lit 1" "''floor_tile''" "Lit 2"
        "Lit (3 / 2)" blank_material "''wood''"]
      null mats
    by simp
qed

subsection \<open>Texture registry\<close>

text \<open>
  Claim C2. After a run of successful registrations with pairwise distinct tags on a
  newly constructed manager, \<^verbatim>\<open>FindTextureSlot\<close> on the tag of the \<open>k\<close>-th registration
  (counted from 0) returns \<open>k\<close>, and \<^verbatim>\<open>BindGLTextures\<close> selects the units 0, 1, ... in
  turn and binds to each the handle of the registration of that index, so that unit
  \<open>k\<close> holds the \<open>k\<close>-th handle.
\<close>

theorem registration_order_is_slot_and_unit:
  assumes "load_all e regs (SceneManager pShaderManager junk ctx) = Some (hs, w)"
    and "distinct (map snd regs)"
    and "k < length regs"
  shows "FindTextureSlot w (snd (regs ! k)) = Inr (int k) \<and>
         (\<exists>w'. BindGLTextures w = Inr w' \<and>
            gl w' = gl w @ concat (map (\<lambda>j. [glActiveTexture j, glBindTexture (hs ! j)])
                                   [0..<length regs]) \<and>
            bound_texture (gl w') k = hs ! k)"
proof -
  let ?w0 = "SceneManager pShaderManager junk ctx"
  have zero: "m_loadedTextures ?w0 = 0" by (simp add: SceneManager_def)
  have count: "m_loadedTextures w = length regs"
    using load_all_count [OF assms(1)] zero by simp
  have le: "m_loadedTextures w \<le> length (m_textureIDs w)"
    using load_all_bound [OF assms(1)] zero by simp
  have entry: "m_textureIDs w ! j = \<lparr>tag = snd (regs ! j), ID = hs ! j\<rparr>" if "j < length regs" for j
    using load_all_entry [OF assms(1) that] zero by simp
  have "tag (m_textureIDs w ! j) \<noteq> snd (regs ! k)" if "j < k" for j
  proof -
    have "(map snd regs ! j = map snd regs ! k) = (j = k)"
      using assms(2,3) that by (intro nth_eq_iff_index_eq) simp_all
    then have "snd (regs ! j) \<noteq> snd (regs ! k)"
      using assms(3) that by simp
    then show ?thesis using entry [of j] assms(3) that by simp
  qed
  then have slot: "FindTextureSlot w (snd (regs ! k)) = Inr (int k)"
    unfolding FindTextureSlot_def using le count assms(3) entry [OF assms(3)]
    by (intro FindTextureSlot_loop_first) simp_all
  have calls: "concat (map (\<lambda>j. [glActiveTexture j, glBindTexture (ID (m_textureIDs w ! j))])
        [0..<length regs]) =
      concat (map (\<lambda>j. [glActiveTexture j, glBindTexture (hs ! j)]) [0..<length regs])"
    by (rule arg_cong [where f = concat], rule map_cong) (simp_all add: entry)
  have "BindGLTextures w = Inr (w\<lparr>gl := gl w @
      concat (map (\<lambda>j. [glActiveTexture j, glBindTexture (hs ! j)]) [0..<length regs])\<rparr>)"
    unfolding BindGLTextures_def using BindGLTextures_loop_calls [OF le, of 0] count calls by simp
  then show ?thesis
    using slot bound_texture_after_bind [OF assms(3)] by simp
qed

theorem registration_order_is_slot_and_unit_witness:
  "\<exists>hs w. load_all demo_env scene_textures fresh_scene = Some (hs, w) \<and>
     distinct (map snd scene_textures) \<and> hs ! 9 = 10 \<and>
     FindTextureSlot w ''pasta'' = Inr 9 \<and>
     (\<exists>w'. BindGLTextures w = Inr w' \<and> bound_texture (gl w') 9 = 10)"
proof -
  obtain w where w: "load_all demo_env scene_textures fresh_scene =
      Some ([1, 2, 3, 4, 5, 6, 7, 8, 9, 10, 11, 12], w)"
    by (rule scene_load)
  have d: "distinct (map snd scene_textures)"
    by (simp add: scene_textures_def)
  have k: "9 < length scene_textures"
    by (simp add: scene_textures_def)
  have t: "snd (scene_textures ! 9) = ''pasta''"
    by (simp add: scene_textures_def)
  from registration_order_is_slot_and_unit [OF w [unfolded fresh_scene_def] d k]
  have "FindTextureSlot w ''pasta'' = Inr 9 \<and>
      (\<exists>w'. BindGLTextures w = Inr w' \<and> bound_texture (gl w') 9 = 10)"
    unfolding t by auto
  then show ?thesis using w d by simp
qed

text \<open>
  Claim C4. When the file decodes and the image has neither 3 nor 4 channels,
  \<^verbatim>\<open>CreateGLTexture\<close> returns false, and the registry is as before: the array of
  entries and the count of loaded textures are unchanged.
\<close>

theorem CreateGLTexture_unsupported_channels:
  "stbi_load e filename = Some img \<Longrightarrow> colorChannels img \<noteq> 3 \<Longrightarrow> colorChannels img \<noteq> 4 \<Longrightarrow>
   \<exists>w'. CreateGLTexture e filename t w = Inr (False, w') \<and>
         m_textureIDs w' = m_textureIDs w \<and> m_loadedTextures w' = m_loadedTextures w"
  by (simp add: CreateGLTexture_def Let_def)

theorem CreateGLTexture_unsupported_channels_witness:
  "stbi_load demo_env ''textures/grey.png'' = Some grey_image \<and> colorChannels grey_image = 1 \<and>
   (\<exists>w'. CreateGLTexture demo_env ''textures/grey.png'' ''grey'' fresh_scene = Inr (False, w') \<and>
         m_textureIDs w' = m_textureIDs fresh_scene \<and> m_loadedTextures w' = 0)"
proof -
  have load: "stbi_load demo_env ''textures/grey.png'' = Some grey_image"
    by (simp add: demo_env_def)
  have ch: "colorChannels grey_image \<noteq> 3" "colorChannels grey_image \<noteq> 4" "colorChannels grey_image = 1"
    by (simp_all add: grey_image_def)
  have zero: "m_loadedTextures fresh_scene = 0"
    by (simp add: fresh_scene_def SceneManager_def)
  show ?thesis
    using CreateGLTexture_unsupported_channels [OF load ch(1) ch(2), of "''grey''" fresh_scene]
      load ch(3) zero
    by simp
qed

text \<open>
  Claim C9. The array has 16 slots and \<^verbatim>\<open>CreateGLTexture\<close> does not compare the count
  with them: after sixteen successful registrations the array is full, and a further
  load of a file that decodes to three or four channels neither returns true nor
  returns false, it writes at index 16 of the 16 entries.
\<close>

theorem registry_overflow:
  assumes "load_all e regs (SceneManager pShaderManager junk ctx) = Some (hs, w)"
    and "length regs = 16"
    and "stbi_load e filename = Some img"
    and "colorChannels img = 3 \<or> colorChannels img = 4"
  shows "length (m_textureIDs w) = 16 \<and> m_loadedTextures w = 16 \<and>
         CreateGLTexture e filename t w = Inl OutOfBounds"
proof -
  have "m_loadedTextures w = 16" "length (m_textureIDs w) = 16"
    using load_all_count [OF assms(1)] assms(2)
    by (simp_all add: SceneManager_textureIDs) (simp add: SceneManager_def)
  then show ?thesis
    using assms(3,4) by (auto simp: CreateGLTexture_def CreateGLTexture_register_def Let_def)
qed

theorem registry_overflow_witness:
  "\<exists>hs w. load_all demo_env sixteen_textures fresh_scene = Some (hs, w) \<and>
     length sixteen_textures = 16 \<and>
     stbi_load demo_env ''textures/e.png'' = Some rgb_image \<and> colorChannels rgb_image = 3 \<and>
     length (m_textureIDs w) = 16 \<and> m_loadedTextures w = 16 \<and>
     CreateGLTexture demo_env ''textures/e.png'' ''extra_e'' w = Inl OutOfBounds"
proof -
  have len: "length sixteen_textures = 16"
    by (simp add: sixteen_textures_def scene_textures_def)
  have "m_loadedTextures fresh_scene + length sixteen_textures \<le> length (m_textureIDs fresh_scene)"
    unfolding len fresh_scene_def SceneManager_textureIDs by (simp add: SceneManager_def)
  moreover have "\<forall>(filename, t) \<in> set sixteen_textures. \<exists>img. stbi_load demo_env filename = Some img \<and>
      (colorChannels img = 3 \<or> colorChannels img = 4)"
    by (simp add: sixteen_textures_def scene_textures_def demo_env_def rgb_image_def)
  ultimately obtain hs w where w: "load_all demo_env sixteen_textures fresh_scene = Some (hs, w)"
    using load_all_succeeds by blast
  have img: "stbi_load demo_env ''textures/e.png'' = Some rgb_image"
    by (simp add: demo_env_def)
  have ch: "colorChannels rgb_image = 3"
    by (simp add: rgb_image_def)
  from registry_overflow [OF w [unfolded fresh_scene_def] len img, of "''extra_e''"] ch
  show ?thesis using w len img by auto
qed

text \<open>
  Claim C7. \<^verbatim>\<open>DestroyGLTextures\<close> deletes nothing. For each loaded entry it calls
  \<^verbatim>\<open>glGenTextures\<close> and stores the name it gets over the entry's handle: the calls it
  makes are these name generations only, one per loaded entry, no call is a deletion,
  and entry \<open>j\<close> ends with the \<open>j\<close>-th of the new names and its old tag.
\<close>

theorem DestroyGLTextures_regenerates:
  assumes "registry_ok w"
  shows "\<exists>w'. DestroyGLTextures e w = Inr w' \<and>
     gl w' = gl w @ map glGenTextures (fresh_names e (gl w) (m_loadedTextures w)) \<and>
     m_loadedTextures w' = m_loadedTextures w \<and>
     (\<forall>j < m_loadedTextures w. m_textureIDs w' ! j =
         (m_textureIDs w ! j)\<lparr>ID := fresh_names e (gl w) (m_loadedTextures w) ! j\<rparr>) \<and>
     (\<forall>c \<in> set (drop (length (gl w)) (gl w')). \<not> is_delete c)"
proof -
  have le: "m_loadedTextures w \<le> length (m_textureIDs w)"
    using assms by (simp add: registry_ok_def)
  from DestroyGLTextures_loop_effect [OF le, of 0 e]
  obtain w' where "DestroyGLTextures_loop e 0 w = Inr w'"
    and "gl w' = gl w @ map glGenTextures (fresh_names e (gl w) (m_loadedTextures w))"
    and "m_loadedTextures w' = m_loadedTextures w"
    and "\<forall>j. j < m_loadedTextures w \<longrightarrow> m_textureIDs w' ! j =
         (m_textureIDs w ! j)\<lparr>ID := fresh_names e (gl w) (m_loadedTextures w) ! j\<rparr>"
    by auto
  then show ?thesis
    by (auto simp: DestroyGLTextures_def is_delete_def)
qed

theorem DestroyGLTextures_regenerates_witness:
  "registry_ok two_loaded \<and>
   m_textureIDs two_loaded ! 0 = \<lparr>tag = ''floor_tile'', ID = 1\<rparr> \<and>
   m_textureIDs two_loaded ! 1 = \<lparr>tag = ''clock_face'', ID = 2\<rparr> \<and>
   (\<exists>w'. DestroyGLTextures demo_env two_loaded = Inr w' \<and>
      gl w' = gl two_loaded @ [glGenTextures 3, glGenTextures 4] \<and>
      m_loadedTextures w' = 2 \<and>
      m_textureIDs w' ! 0 = \<lparr>tag = ''floor_tile'', ID = 3\<rparr> \<and>
      m_textureIDs w' ! 1 = \<lparr>tag = ''clock_face'', ID = 4\<rparr>)"
proof -
  have v: "m_loadedTextures two_loaded = 2"
    "m_textureIDs two_loaded = [\<lparr>tag = ''floor_tile'', ID = 1\<rparr>, \<lparr>tag = ''clock_face'', ID = 2\<rparr>] @
         replicate 14 \<lparr>tag = ''/0'', ID = - 1\<rparr>"
    "fresh_names demo_env (gl two_loaded) 2 = [3, 4]"
    using two_loaded_value by simp_all
  have ok: "registry_ok two_loaded"
    by (simp add: registry_ok_def v)
  from DestroyGLTextures_regenerates [OF ok, of demo_env]
  obtain w' where w': "DestroyGLTextures demo_env two_loaded = Inr w'"
    "gl w' = gl two_loaded @ [glGenTextures 3, glGenTextures 4]"
    "m_loadedTextures w' = 2"
    "\<forall>j < 2. m_textureIDs w' ! j = (m_textureIDs two_loaded ! j)\<lparr>ID := [3, 4] ! j\<rparr>"
    unfolding v(1) v(3) by auto
  from w'(4) have "m_textureIDs w' ! 0 = \<lparr>tag = ''floor_tile'', ID = 3\<rparr>"
    "m_textureIDs w' ! 1 = \<lparr>tag = ''clock_face'', ID = 4\<rparr>"
    by (simp_all add: v(2))
  then show ?thesis using ok w' by (simp add: v(2))
qed

subsection \<open>Lookups\<close>

text \<open>
  When no registered entry carries the tag, the two texture lookups return -1, and
  \<^verbatim>\<open>FindMaterial\<close> leaves the material it was given as it is. None of them can fail.
  What \<^verbatim>\<open>FindMaterial\<close> returns is whether any material is defined at all.
\<close>

lemma texture_lookups_unregistered:
  assumes "registry_ok w"
    and "\<forall>x \<in> set (take (m_loadedTextures w) (m_textureIDs w)). tag x \<noteq> t"
  shows "FindTextureID w t = Inr (- 1) \<and> FindTextureSlot w t = Inr (- 1)"
proof -
  have le: "m_loadedTextures w \<le> length (m_textureIDs w)"
    using assms(1) by (simp add: registry_ok_def)
  have miss: "tag (m_textureIDs w ! j) \<noteq> t" if "j < m_loadedTextures w" for j
    using assms(2) that by (simp add: take_all_nth [OF le])
  show ?thesis
    unfolding FindTextureID_def FindTextureSlot_def
    using le miss by (simp add: FindTextureID_loop_miss FindTextureSlot_loop_miss)
qed

lemma FindMaterial_unregistered:
  assumes "\<forall>x \<in> set (m_objectMaterials w). mtag x \<noteq> t"
  shows "FindMaterial w t material = (m_objectMaterials w \<noteq> [], material)"
proof -
  have "FindMaterial_loop (m_objectMaterials w) t 0 False material = material"
    using assms by (intro FindMaterial_loop_miss) simp
  then show ?thesis by (simp add: FindMaterial_def)
qed

text \<open>
  Claim C3. For a tag that no registered entry carries, \<^verbatim>\<open>FindTextureID\<close> and
  \<^verbatim>\<open>FindTextureSlot\<close> are to return -1 and \<^verbatim>\<open>FindMaterial\<close> is to return false and
  leave its output parameter as it is. \<^verbatim>\<open>FindMaterial\<close> does not: it ends with
  \<^verbatim>\<open>return(true)\<close>, not with the \<^verbatim>\<open>bFound\<close> it computes. With the eleven materials of
  the scene defined, the tag \<^verbatim>\<open>marble\<close>, which none of them carries, gives true.
\<close>

theorem FindMaterial_unmatched_returns_true:
  "FindMaterial (DefineObjectMaterials symbolic fresh_scene) ''marble'' blank_material =
     (True, blank_material)"
  by (simp add: FindMaterial_def DefineObjectMaterials_def fresh_scene_def SceneManager_def
      FindMaterial_loop.simps)

text \<open>
  Claim C6. When an entry carries the tag, each lookup returns the data of the first
  such entry in registration order: \<^verbatim>\<open>FindTextureID\<close> its handle, \<^verbatim>\<open>FindTextureSlot\<close>
  its index, and \<^verbatim>\<open>FindMaterial\<close> true with the diffuse colour, the specular colour
  and the shininess of that material copied into the output parameter.
\<close>

theorem lookups_return_first_match:
  "(registry_ok w \<and> k < m_loadedTextures w \<and> tag (m_textureIDs w ! k) = t \<and>
      (\<forall>x \<in> set (take k (m_textureIDs w)). tag x \<noteq> t) \<longrightarrow>
      FindTextureID w t = Inr (sint (ID (m_textureIDs w ! k))) \<and>
      FindTextureSlot w t = Inr (int k)) \<and>
   (n < length (m_objectMaterials w) \<and> mtag (m_objectMaterials w ! n) = t \<and>
      (\<forall>x \<in> set (take n (m_objectMaterials w)). mtag x \<noteq> t) \<longrightarrow>
      FindMaterial w t material =
        (True, material\<lparr>diffuseColor := diffuseColor (m_objectMaterials w ! n),
                        specularColor := specularColor (m_objectMaterials w ! n),
                        shininess := shininess (m_objectMaterials w ! n)\<rparr>))"
proof (intro conjI impI)
  assume a: "registry_ok w \<and> k < m_loadedTextures w \<and> tag (m_textureIDs w ! k) = t \<and>
      (\<forall>x \<in> set (take k (m_textureIDs w)). tag x \<noteq> t)"
  then have le: "m_loadedTextures w \<le> length (m_textureIDs w)"
    by (simp add: registry_ok_def)
  have "k \<le> length (m_textureIDs w)"
    using a le by simp
  from take_all_nth [OF this] a
  have before: "tag (m_textureIDs w ! j) \<noteq> t" if "j < k" for j
    using that by simp
  show "FindTextureID w t = Inr (sint (ID (m_textureIDs w ! k)))"
    unfolding FindTextureID_def using le a before by (intro FindTextureID_loop_first) simp_all
  show "FindTextureSlot w t = Inr (int k)"
    unfolding FindTextureSlot_def using le a before by (intro FindTextureSlot_loop_first) simp_all
next
  assume a: "n < length (m_objectMaterials w) \<and> mtag (m_objectMaterials w ! n) = t \<and>
      (\<forall>x \<in> set (take n (m_objectMaterials w)). mtag x \<noteq> t)"
  have "n \<le> length (m_objectMaterials w)"
    using a by simp
  from take_all_nth [OF this] a
  have before: "mtag (m_objectMaterials w ! j) \<noteq> t" if "j < n" for j
    using that by simp
  have "FindMaterial_loop (m_objectMaterials w) t 0 False material =
      material\<lparr>diffuseColor := diffuseColor (m_objectMaterials w ! n),
               specularColor := specularColor (m_objectMaterials w ! n),
               shininess := shininess (m_objectMaterials w ! n)\<rparr>"
    using a before by (intro FindMaterial_loop_first) simp_all
  then show "FindMaterial w t material =
        (True, material\<lparr>diffuseColor := diffuseColor (m_objectMaterials w ! n),
                        specularColor := specularColor (m_objectMaterials w ! n),
                        shininess := shininess (m_objectMaterials w ! n)\<rparr>)"
    using a by (auto simp: FindMaterial_def)
qed

theorem lookups_return_first_match_witness:
  "registry_ok loaded_scene \<and> 10 < m_loadedTextures loaded_scene \<and>
   m_textureIDs loaded_scene ! 10 = \<lparr>tag = ''meatball'', ID = 11\<rparr> \<and>
   mtag (m_objectMaterials loaded_scene ! 8) = ''meatball'' \<and>
   FindTextureID loaded_scene ''meatball'' = Inr 11 \<and>
   FindTextureSlot loaded_scene ''meatball'' = Inr 10 \<and>
   FindMaterial loaded_scene ''meatball'' blank_material =
     (True, \<lparr>diffuseColor = (Lit (4 / 10), Lit (2 / 10), Lit (1 / 10)),
             specularColor = (Lit (1 / 10), Lit (5 / 100), Lit (3 / 100)),
             shininess = Lit 8, mtag = []\<rparr>)"
proof -
  note fields = loaded_scene_fields scene_registry_def detached_scene_def
    DefineObjectMaterials_def SceneManager_def symbolic_def
  have ok: "registry_ok loaded_scene"
    by (simp add: registry_ok_def fields)
  have tex: "10 < m_loadedTextures loaded_scene"
    "tag (m_textureIDs loaded_scene ! 10) = ''meatball''"
    "\<forall>x \<in> set (take 10 (m_textureIDs loaded_scene)). tag x \<noteq> ''meatball''"
    by (simp_all add: fields)
  have mat: "8 < length (m_objectMaterials loaded_scene)"
    "mtag (m_objectMaterials loaded_scene ! 8) = ''meatball''"
    "\<forall>x \<in> set (take 8 (m_objectMaterials loaded_scene)). mtag x \<noteq> ''meatball''"
    by (simp_all add: fields)
  show ?thesis
    using lookups_return_first_match [of loaded_scene 10 "''meatball''" 8 blank_material] ok tex mat
    by (simp add: fields blank_material_def)
qed

subsection \<open>Rendering a frame\<close>

text \<open>
  Claim C8. Every call of \<^verbatim>\<open>RenderScene\<close> first updates the two flicker uniforms of the
  spotlight and then calls the fifteen routines in the order floor, back wall, right
  wall, table, clock, wine bottle, candle, left chair, right chair, left wine glass,
  right wine glass, left plate, right plate, left fork, right fork, whatever the
  routines do and whatever the time and the state are. A step is not reached only
  when a step before it faults.
\<close>

theorem RenderScene_order:
  "RenderScene N run time w = and_then (update_flicker N time w) (run_all run render_order)"
  by (cases "m_pShaderManager w")
     (simp_all add: RenderScene_def update_flicker_def flicker_diffuse_def flicker_ambient_def
      render_order_def and_then_def deref_shader_def Let_def split: sum.splits)

theorem RenderScene_order_witness:
  "\<exists>w sh. RenderScene symbolic leave_name (Var ''t'') fresh_scene = Inr w \<and>
     m_pShaderManager w = Some sh \<and>
     map fst (uniforms sh) =
       [''spotLight.diffuse'', ''spotLight.ambient'',
        ''RenderFloor'', ''RenderBackWall'', ''RenderRightWall'', ''RenderTable'', ''RenderClock'',
        ''RenderWineBottle'', ''RenderCandle'', ''RenderLeftChair'', ''RenderRightChair'',
        ''RenderLeftWineGlass'', ''RenderRightWineGlass'', ''RenderLeftPlate'', ''RenderRightPlate'',
        ''RenderLeftFork'', ''RenderRightFork'']"
  using RenderScene_order [of symbolic leave_name "Var ''t''" fresh_scene]
  by (simp add: fresh_scene_def SceneManager_def no_uniforms_def update_flicker_def
      render_order_def and_then_def deref_shader_def leave_name_def setVec3Value_def
      setIntValue_def push_def)

subsection \<open>The flicker multiplier\<close>

text \<open>
  The multiplier is \<open>flicker_of\<close>: the sum of the literal 0.9 and the product of the
  literal 0.1 with the sine of the product of the time and the literal 15, in the
  arithmetic of the machine. In exact arithmetic it is 0.9 + 0.1 sin (15 t) and lies
  between 0.8 and 1.
\<close>

lemma flicker_exact_arithmetic:
  fixes N :: "(real, 'm) numerics"
  assumes "flit N = of_rat" and "fadd N = (+)" and "fmul N = (*)" and "fsin N = sin"
  shows "flicker_of N t = 9 / 10 + 1 / 10 * sin (t * 15) \<and>
         8 / 10 \<le> flicker_of N t \<and> flicker_of N t \<le> 1"
proof -
  have eq: "flicker_of N t = 9 / 10 + 1 / 10 * sin (t * 15)"
    by (simp add: flicker_of_def assms of_rat_divide)
  have bounds: "- 1 \<le> sin (t * 15)" "sin (t * 15) \<le> 1"
    by simp_all
  have "8 / 10 \<le> 9 / 10 + 1 / 10 * sin (t * 15)"
    using bounds(1) by linarith
  moreover have "9 / 10 + 1 / 10 * sin (t * 15) \<le> 1"
    using bounds(2) by linarith
  ultimately show ?thesis using eq by simp
qed

subsubsection \<open>Rounding to binary32 is monotone\<close>

declare bit_length.simps [simp del]

lemma round_half_even_mono: "x \<le> y \<Longrightarrow> round_half_even x \<le> round_half_even y"
proof -
  assume le: "x \<le> y"
  then have fl: "\<lfloor>x\<rfloor> \<le> \<lfloor>y\<rfloor>" by (rule floor_mono)
  show ?thesis
  proof (cases "\<lfloor>x\<rfloor> = \<lfloor>y\<rfloor>")
    case True
    with le show ?thesis by (auto simp: round_half_even_def Let_def)
  next
    case False
    with fl have "\<lfloor>x\<rfloor> + 1 \<le> \<lfloor>y\<rfloor>" by simp
    moreover have "round_half_even x \<le> \<lfloor>x\<rfloor> + 1" by (simp add: round_half_even_def Let_def)
    moreover have "\<lfloor>y\<rfloor> \<le> round_half_even y" by (simp add: round_half_even_def Let_def)
    ultimately show ?thesis by linarith
  qed
qed

lemma round_half_even_of_int: "round_half_even (of_int n) = n"
  by (simp add: round_half_even_def)

lemma round_half_even_minus: "round_half_even (- y) = - round_half_even y"
proof (cases "y = of_int \<lfloor>y\<rfloor>")
  case True
  then obtain n where "y = of_int n" by metis
  then show ?thesis by (simp add: round_half_even_of_int flip: of_int_minus)
next
  case False
  then have c: "\<lceil>y\<rceil> = \<lfloor>y\<rfloor> + 1"
    by (metis ceiling_altdef)
  have fl: "\<lfloor>- y\<rfloor> = - \<lfloor>y\<rfloor> - 1"
    using c by (simp add: floor_minus)
  have "of_int \<lfloor>y\<rfloor> < y" using False by (metis of_int_floor_le order_less_le)
  then show ?thesis
    unfolding round_half_even_def Let_def fl
    by (auto simp: algebra_simps)
qed

lemma bit_length_nonpos: "n \<le> 0 \<Longrightarrow> bit_length n = 0"
  by (subst bit_length.simps) simp

lemma bit_length_bounds:
  "0 < n \<Longrightarrow> 0 < bit_length n \<and> 2 ^ nat (bit_length n - 1) \<le> n \<and> n < 2 ^ nat (bit_length n)"
proof (induction n rule: bit_length.induct)
  case (1 n)
  show ?case
  proof (cases "n = 1")
    case True
    then show ?thesis
      by (subst (1 2 3) bit_length.simps) (simp add: bit_length_nonpos)
  next
    case False
    with 1(2) have half: "0 < n div 2" by simp
    from 1(1) [OF 1(2) half]
    have ih: "0 < bit_length (n div 2)" "2 ^ nat (bit_length (n div 2) - 1) \<le> n div 2"
      "n div 2 < 2 ^ nat (bit_length (n div 2))"
      by simp_all
    have eq: "bit_length n = 1 + bit_length (n div 2)"
      using 1(2) by (subst bit_length.simps) simp
    have k: "nat (1 + bit_length (n div 2) - 1) = Suc (nat (bit_length (n div 2) - 1))"
      "nat (1 + bit_length (n div 2)) = Suc (nat (bit_length (n div 2)))"
      using ih(1) by simp_all
    show ?thesis
      unfolding eq k using ih by auto
  qed
qed

lemma two_powi_pos: "0 < (2::rat) powi e"
  by (simp add: power_int_def)

lemma two_powi_nonneg: "0 \<le> (2::rat) powi e"
  by (rule less_imp_le) (rule two_powi_pos)

lemma two_powi_nat: "0 \<le> e \<Longrightarrow> (2::rat) powi e = 2 ^ nat e"
  by (simp add: power_int_def)

lemma two_powi_less_iff: "(2::rat) powi a < 2 powi b \<longleftrightarrow> a < b"
  by (metis linorder_not_less one_less_numeral_iff power_int_increasing power_int_strict_increasing
      semiring_norm(76) order_less_imp_le)

lemma two_powi_le_iff: "(2::rat) powi a \<le> 2 powi b \<longleftrightarrow> a \<le> b"
  using two_powi_less_iff [of b a] by (auto simp: not_less [symmetric])

lemma bit_length_rat:
  assumes "0 < n"
  shows "2 powi (bit_length n - 1) \<le> (of_int n :: rat)" and "(of_int n :: rat) < 2 powi bit_length n"
proof -
  from bit_length_bounds [OF assms]
  have pos: "0 < bit_length n" and lo: "2 ^ nat (bit_length n - 1) \<le> n" and hi: "n < 2 ^ nat (bit_length n)"
    by simp_all
  have "(of_int (2 ^ nat (bit_length n - 1)) :: rat) \<le> of_int n"
    using lo by (simp only: of_int_le_iff)
  then show "2 powi (bit_length n - 1) \<le> (of_int n :: rat)"
    using pos by (simp add: two_powi_nat)
  have "(of_int n :: rat) < of_int (2 ^ nat (bit_length n))"
    using hi by (simp only: of_int_less_iff)
  then show "(of_int n :: rat) < 2 powi bit_length n"
    using pos by (simp add: two_powi_nat)
qed

lemma binade_bounds:
  assumes "x \<noteq> 0"
  shows "2 powi binade x \<le> \<bar>x\<bar>" and "\<bar>x\<bar> < 2 powi (binade x + 1)"
proof -
  obtain p q where pq: "quotient_of \<bar>x\<bar> = (p, q)" by (cases "quotient_of \<bar>x\<bar>")
  have q: "0 < q" using pq by (rule quotient_of_denom_pos)
  have x: "\<bar>x\<bar> = of_int p / of_int q" using pq by (rule quotient_of_div)
  have "0 < \<bar>x\<bar>" using assms by simp
  then have p: "0 < p" using q unfolding x by (simp add: zero_less_divide_iff)
  define d where "d = bit_length p - bit_length q"
  note bp = bit_length_rat [OF p] and bq = bit_length_rat [OF q]
  have qpos: "(0::rat) < of_int q" using q by simp
  have "\<bar>x\<bar> < 2 powi bit_length p / 2 powi (bit_length q - 1)"
    unfolding x using bp(2) bq(1) qpos
    by (intro frac_less) (simp_all add: p less_imp_le two_powi_pos)
  also have "\<dots> = 2 powi (d + 1)"
    by (simp add: d_def power_int_diff power_int_add)
  finally have hi: "\<bar>x\<bar> < 2 powi (d + 1)" .
  have "2 powi (bit_length p - 1) / 2 powi bit_length q < \<bar>x\<bar>"
    unfolding x using bp(1) bq(2) qpos
    by (intro frac_less2) (simp_all add: two_powi_pos)
  also have "2 powi (bit_length p - 1) / 2 powi bit_length q = (2::rat) powi (d - 1)"
    by (simp add: d_def power_int_diff power_int_add)
  finally have lo: "2 powi (d - 1) < \<bar>x\<bar>" .
  have b: "binade x = (if 2 powi d \<le> \<bar>x\<bar> then d else d - 1)"
    by (simp add: binade_def pq d_def Let_def)
  show "2 powi binade x \<le> \<bar>x\<bar>"
    using lo by (simp add: b less_imp_le)
  show "\<bar>x\<bar> < 2 powi (binade x + 1)"
    using hi by (auto simp: b not_le)
qed

lemma binade_mono:
  assumes "0 < x" and "x \<le> y"
  shows "binade x \<le> binade y"
proof -
  have nz: "x \<noteq> 0" "y \<noteq> 0" using assms by auto
  have "2 powi binade x \<le> \<bar>x\<bar>" using binade_bounds(1) [OF nz(1)] .
  also have "\<bar>x\<bar> \<le> \<bar>y\<bar>" using assms by simp
  also have "\<bar>y\<bar> < 2 powi (binade y + 1)" using binade_bounds(2) [OF nz(2)] .
  finally have "binade x < binade y + 1" by (simp only: two_powi_less_iff)
  then show ?thesis by simp
qed

lemma binade_minus: "binade (- x) = binade x"
  by (simp add: binade_def)

lemma round_binary32_alt:
  "x \<noteq> 0 \<Longrightarrow> round_binary32 x =
     of_int (round_half_even (x / 2 powi (binary32_exponent x - 23))) * 2 powi (binary32_exponent x - 23)"
  by (simp add: round_binary32_def Let_def)

lemma round_binary32_minus: "round_binary32 (- x) = - round_binary32 x"
  by (simp add: round_binary32_def binary32_exponent_def binade_minus Let_def round_half_even_minus)

lemma round_binary32_nonneg:
  assumes "0 \<le> x"
  shows "0 \<le> round_binary32 x"
proof (cases "x = 0")
  case True
  then show ?thesis by (simp add: round_binary32_def)
next
  case False
  let ?u = "(2::rat) powi (binary32_exponent x - 23)"
  have "0 \<le> x / ?u" using assms by (simp add: two_powi_nonneg)
  then have "round_half_even 0 \<le> round_half_even (x / ?u)" by (rule round_half_even_mono)
  then have "0 \<le> round_half_even (x / ?u)" using round_half_even_of_int [of 0] by simp
  then show ?thesis by (simp add: round_binary32_alt [OF False] two_powi_nonneg)
qed

lemma round_binary32_upper:
  assumes "0 < x"
  shows "round_binary32 x \<le> 2 powi (binary32_exponent x + 1)"
proof -
  let ?e = "binary32_exponent x"
  let ?u = "(2::rat) powi (?e - 23)"
  have nz: "x \<noteq> 0" using assms by simp
  have "x < 2 powi (binade x + 1)" using binade_bounds(2) [OF nz] assms by simp
  also have "\<dots> \<le> 2 powi (?e + 1)"
    by (simp add: two_powi_le_iff binary32_exponent_def)
  finally have "x / ?u \<le> 2 powi (?e + 1) / ?u"
    by (intro divide_right_mono) (simp_all add: two_powi_nonneg)
  also have "2 powi (?e + 1) / ?u = of_int (2 ^ 24)"
    by (simp add: power_int_diff power_int_add)
  finally have "round_half_even (x / ?u) \<le> round_half_even (of_int (2 ^ 24))"
    by (rule round_half_even_mono)
  then have "round_half_even (x / ?u) \<le> 2 ^ 24" by (simp only: round_half_even_of_int)
  then have "(of_int (round_half_even (x / ?u)) :: rat) \<le> of_int (2 ^ 24)"
    by (simp only: of_int_le_iff)
  then have "of_int (round_half_even (x / ?u)) * ?u \<le> of_int (2 ^ 24) * ?u"
    by (intro mult_right_mono) (simp_all add: two_powi_nonneg)
  also have "of_int (2 ^ 24) * ?u = 2 powi (?e + 1)"
    by (simp add: power_int_diff power_int_add)
  finally show ?thesis by (simp add: round_binary32_alt [OF nz])
qed

lemma round_binary32_lower:
  assumes "0 < x" and "- 126 \<le> binade x"
  shows "2 powi binade x \<le> round_binary32 x"
proof -
  have e: "binary32_exponent x = binade x"
    using assms(2) by (simp add: binary32_exponent_def)
  let ?u = "(2::rat) powi (binade x - 23)"
  have nz: "x \<noteq> 0" using assms by simp
  have "2 powi binade x \<le> x" using binade_bounds(1) [OF nz] assms by simp
  then have "2 powi binade x / ?u \<le> x / ?u"
    by (intro divide_right_mono) (simp_all add: two_powi_nonneg)
  moreover have "2 powi binade x / ?u = of_int (2 ^ 23)"
    by (simp add: power_int_diff)
  ultimately have "round_half_even (of_int (2 ^ 23)) \<le> round_half_even (x / ?u)"
    by (intro round_half_even_mono) simp
  then have "2 ^ 23 \<le> round_half_even (x / ?u)" by (simp only: round_half_even_of_int)
  then have "(of_int (2 ^ 23) :: rat) \<le> of_int (round_half_even (x / ?u))"
    by (simp only: of_int_le_iff)
  then have A: "of_int (2 ^ 23) * ?u \<le> of_int (round_half_even (x / ?u)) * ?u"
    by (intro mult_right_mono) (simp_all add: two_powi_nonneg)
  have B: "of_int (2 ^ 23) * ?u = 2 powi binade x"
    by (simp add: power_int_diff)
  have "2 powi binade x \<le> of_int (round_half_even (x / ?u)) * ?u"
    using A by (simp only: B)
  also have "\<dots> = round_binary32 x"
    by (simp only: round_binary32_alt [OF nz] e)
  finally show ?thesis .
qed

lemma round_binary32_mono_pos:
  assumes "0 < x" and "x \<le> y"
  shows "round_binary32 x \<le> round_binary32 y"
proof -
  have nz: "x \<noteq> 0" "y \<noteq> 0" and ypos: "0 < y" using assms by auto
  have le: "binary32_exponent x \<le> binary32_exponent y"
    using binade_mono [OF assms] by (simp add: binary32_exponent_def)
  show ?thesis
  proof (cases "binary32_exponent x = binary32_exponent y")
    case True
    let ?u = "(2::rat) powi (binary32_exponent y - 23)"
    have "x / ?u \<le> y / ?u"
      using assms(2) by (intro divide_right_mono) (simp_all add: two_powi_nonneg)
    then have "round_half_even (x / ?u) \<le> round_half_even (y / ?u)" by (rule round_half_even_mono)
    then have "(of_int (round_half_even (x / ?u)) :: rat) \<le> of_int (round_half_even (y / ?u))"
      by (simp only: of_int_le_iff)
    then have "of_int (round_half_even (x / ?u)) * ?u \<le> of_int (round_half_even (y / ?u)) * ?u"
      by (intro mult_right_mono) (simp_all add: two_powi_nonneg)
    then show ?thesis by (simp add: round_binary32_alt nz True)
  next
    case False
    with le have lt: "binary32_exponent x < binary32_exponent y" by simp
    then have normal: "- 126 \<le> binade y" "binary32_exponent y = binade y"
      by (auto simp: binary32_exponent_def)
    have "round_binary32 x \<le> 2 powi (binary32_exponent x + 1)"
      using assms(1) by (rule round_binary32_upper)
    also have "\<dots> \<le> 2 powi binade y"
      using lt normal(2) by (simp add: two_powi_le_iff)
    also have "\<dots> \<le> round_binary32 y"
      using ypos normal(1) by (rule round_binary32_lower)
    finally show ?thesis .
  qed
qed

lemma round_binary32_mono:
  assumes "x \<le> y"
  shows "round_binary32 x \<le> round_binary32 y"
proof -
  consider "0 < x" | "x \<le> 0" "0 \<le> y" | "y < 0" by linarith
  then show ?thesis
  proof cases
    case 1
    then show ?thesis using assms by (rule round_binary32_mono_pos)
  next
    case 2
    have "0 \<le> round_binary32 (- x)" using 2(1) by (intro round_binary32_nonneg) simp
    then have "round_binary32 x \<le> 0" by (simp add: round_binary32_minus)
    also have "0 \<le> round_binary32 y" using 2(2) by (rule round_binary32_nonneg)
    finally show ?thesis .
  next
    case 3
    then have "0 < - y" "- y \<le> - x" using assms by simp_all
    then have "round_binary32 (- y) \<le> round_binary32 (- x)" by (rule round_binary32_mono_pos)
    then show ?thesis by (simp add: round_binary32_minus)
  qed
qed

subsubsection \<open>The multiplier in binary32\<close>

lemma binary32_constants:
  "round_binary32 (9 / 10) = 7549747 / 8388608"
  "round_binary32 (1 / 10) = 13421773 / 134217728"
  "round_binary32 (13421773 / 134217728) = 13421773 / 134217728"
  "round_binary32 (- (13421773 / 134217728)) = - (13421773 / 134217728)"
  "round_binary32 (7549747 / 8388608 - 13421773 / 134217728) = 3355443 / 4194304"
  "round_binary32 (7549747 / 8388608 + 13421773 / 134217728) = 1"
  by code_simp+

lemma flicker_of_binary32:
  "flicker_of (binary32 s) t =
     round_binary32 (round_binary32 (9 / 10) +
       round_binary32 (round_binary32 (1 / 10) * s (round_binary32 (t * round_binary32 15))))"
  by (simp add: flicker_of_def binary32_def)

lemma flicker_binary32_range:
  assumes "- 1 \<le> s" and "s \<le> 1"
  shows "3355443 / 4194304 \<le>
      round_binary32 (round_binary32 (9 / 10) + round_binary32 (round_binary32 (1 / 10) * s))"
    and "round_binary32 (round_binary32 (9 / 10) + round_binary32 (round_binary32 (1 / 10) * s)) \<le> 1"
proof -
  let ?c1 = "13421773 / 134217728 :: rat"
  let ?c9 = "7549747 / 8388608 :: rat"
  let ?p = "round_binary32 (?c1 * s)"
  have "- ?c1 \<le> ?c1 * s" "?c1 * s \<le> ?c1" using assms by simp_all
  then have "round_binary32 (- ?c1) \<le> ?p" "?p \<le> round_binary32 ?c1"
    by (simp_all only: round_binary32_mono)
  then have p: "- ?c1 \<le> ?p" "?p \<le> ?c1"
    by (simp_all only: binary32_constants)
  then have "?c9 - ?c1 \<le> ?c9 + ?p" "?c9 + ?p \<le> ?c9 + ?c1" by simp_all
  then have "round_binary32 (?c9 - ?c1) \<le> round_binary32 (?c9 + ?p)"
    "round_binary32 (?c9 + ?p) \<le> round_binary32 (?c9 + ?c1)"
    by (simp_all only: round_binary32_mono)
  then show "3355443 / 4194304 \<le>
      round_binary32 (round_binary32 (9 / 10) + round_binary32 (round_binary32 (1 / 10) * s))"
    and "round_binary32 (round_binary32 (9 / 10) + round_binary32 (round_binary32 (1 / 10) * s)) \<le> 1"
    by (simp_all only: binary32_constants)
qed

subsubsection \<open>The sine next to three halves of pi\<close>

lemma cos_taylor12:
  fixes x :: real
  shows "\<bar>cos x - (\<Sum>m<12. cos_coeff m * x ^ m)\<bar> \<le> \<bar>x\<bar> ^ 12 / fact 12"
proof -
  obtain t where "cos x = (\<Sum>m<12. cos_coeff m * x ^ m) +
      (cos (t + 1 / 2 * real 12 * pi) / fact 12) * x ^ 12"
    using Maclaurin_cos_expansion [of x 12] by blast
  then have "cos x - (\<Sum>m<12. cos_coeff m * x ^ m) =
      cos (t + 1 / 2 * real 12 * pi) * (x ^ 12 / fact 12)"
    by simp
  then have "\<bar>cos x - (\<Sum>m<12. cos_coeff m * x ^ m)\<bar> =
      \<bar>cos (t + 1 / 2 * real 12 * pi)\<bar> * (\<bar>x\<bar> ^ 12 / fact 12)"
    by (simp add: abs_mult power_abs)
  also have "\<dots> \<le> 1 * (\<bar>x\<bar> ^ 12 / fact 12)"
    by (intro mult_right_mono abs_cos_le_one) simp
  finally show ?thesis by simp
qed

lemma cos_coeff_values:
  "cos_coeff (Suc 0) = 0" "cos_coeff 1 = 0"
  "cos_coeff 2 = - 1 / 2" "cos_coeff 3 = 0" "cos_coeff 4 = 1 / 24"
  "cos_coeff 5 = 0" "cos_coeff 6 = - 1 / 720" "cos_coeff 7 = 0" "cos_coeff 8 = 1 / 40320"
  "cos_coeff 9 = 0" "cos_coeff 10 = - 1 / 3628800" "cos_coeff 11 = 0"
  by (simp_all add: cos_coeff_def fact_numeral)

lemma cos_poly12:
  fixes x :: real
  shows "(\<Sum>m<12. cos_coeff m * x ^ m) =
    1 - x^2 / 2 + x^4 / 24 - x^6 / 720 + x^8 / 40320 - x^10 / 3628800"
  by (simp add: lessThan_nat_numeral cos_coeff_values lessThan_Suc)

lemma cos_taylor12_bounds:
  fixes x :: real
  assumes "0 \<le> x"
  defines "P \<equiv> 1 - x^2 / 2 + x^4 / 24 - x^6 / 720 + x^8 / 40320 - x^10 / 3628800"
    and "r \<equiv> x ^ 12 / 479001600"
  shows "P - r \<le> cos x" and "cos x \<le> P + r"
proof -
  have "\<bar>cos x - (\<Sum>m<12. cos_coeff m * x ^ m)\<bar> \<le> \<bar>x\<bar> ^ 12 / fact 12"
    by (rule cos_taylor12)
  moreover have "fact 12 = (479001600 :: real)" by (simp add: fact_numeral)
  ultimately have "\<bar>cos x - P\<bar> \<le> r"
    using assms(1) unfolding cos_poly12 P_def r_def by simp
  then show "P - r \<le> cos x" and "cos x \<le> P + r"
    by (simp_all add: abs_le_iff)
qed

lemma cos_positive_below_half_pi: "0 < cos (6283 / 4000 :: real)"
proof -
  let ?a = "6283 / 4000 :: real"
  have "0 < (1 - ?a^2 / 2 + ?a^4 / 24 - ?a^6 / 720 + ?a^8 / 40320 - ?a^10 / 3628800) -
      ?a ^ 12 / 479001600"
    by (simp add: power_divide)
  also have "\<dots> \<le> cos ?a"
    by (rule cos_taylor12_bounds) simp
  finally show ?thesis .
qed

lemma cos_negative_above_half_pi: "cos (31417 / 20000 :: real) < 0"
proof -
  let ?a = "31417 / 20000 :: real"
  have "cos ?a \<le> (1 - ?a^2 / 2 + ?a^4 / 24 - ?a^6 / 720 + ?a^8 / 40320 - ?a^10 / 3628800) +
      ?a ^ 12 / 479001600"
    by (rule cos_taylor12_bounds) simp
  also have "\<dots> < 0"
    by (simp add: power_divide)
  finally show ?thesis .
qed

lemma half_pi_bounds: "6283 / 4000 < pi / 2" "pi / 2 < 31417 / 20000"
proof -
  show "6283 / 4000 < pi / 2"
  proof (rule ccontr)
    assume "\<not> 6283 / 4000 < pi / 2"
    then have "pi / 2 \<le> 6283 / 4000" by simp
    moreover have "(6283 / 4000 :: real) \<le> pi" using pi_ge_two by linarith
    ultimately have "cos (6283 / 4000) \<le> cos (pi / 2)"
      by (intro cos_monotone_0_pi_le) simp_all
    then show False using cos_positive_below_half_pi by simp
  qed
  show "pi / 2 < 31417 / 20000"
  proof (rule ccontr)
    assume "\<not> pi / 2 < 31417 / 20000"
    then have "31417 / 20000 \<le> pi / 2" by simp
    then have "cos (pi / 2) \<le> cos (31417 / 20000)"
      by (intro cos_monotone_0_pi_le) simp_all
    then show False using cos_negative_above_half_pi by simp
  qed
qed

text \<open>
  The binary32 numbers next to -1 are \<open>- 1 - 1 / 2 ^ 23\<close> and \<open>- 1 + 1 / 2 ^ 24\<close>. The
  sine of \<open>2470649 / 524288\<close> is less than \<open>1 / 2 ^ 25\<close> above -1, so -1 is the binary32
  number nearest to it.
\<close>

lemma sine_near_minus_one:
  "- 1 \<le> sin (2470649 / 524288 :: real)" "sin (2470649 / 524288 :: real) < - 1 + 1 / 2 ^ 25"
proof -
  let ?x = "2470649 / 524288 :: real"
  define d where "d = ?x - 3 / 2 * pi"
  show "- 1 \<le> sin ?x" by simp
  have d: "\<bar>d\<bar> < 1 / 2 ^ 12"
    using half_pi_bounds unfolding d_def abs_less_iff by simp
  have "sin ?x = sin (3 / 2 * pi + d)" by (simp add: d_def)
  also have "\<dots> = sin ((pi / 2 + d) + pi)" by (simp add: algebra_simps)
  also have "\<dots> = - sin (pi / 2 + d)" by (rule sin_periodic_pi)
  also have "\<dots> = - cos d" by (simp add: sin_add)
  finally have s: "sin ?x = - cos d" .
  have "cos d = 1 - 2 * (sin (d / 2))\<^sup>2"
    using cos_double_sin [of "d / 2"] by simp
  moreover have "(sin (d / 2))\<^sup>2 \<le> (d / 2)\<^sup>2"
    using abs_sin_x_le_abs_x [of "d / 2"] by (simp add: abs_le_square_iff [symmetric])
  moreover have "(d / 2)\<^sup>2 < (1 / 2 ^ 13)\<^sup>2"
  proof -
    have "\<bar>d / 2\<bar> < 1 / 2 ^ 13" using d by simp
    then have "\<bar>d / 2\<bar>\<^sup>2 < (1 / 2 ^ 13)\<^sup>2" by (intro power_strict_mono) simp_all
    then show ?thesis by (simp only: power2_abs)
  qed
  ultimately have "1 - cos d < 2 * (1 / 2 ^ 13)\<^sup>2" by linarith
  moreover have "2 * (1 / 2 ^ 13)\<^sup>2 = (1 / 2 ^ 25 :: real)" by (simp add: power2_eq_square)
  ultimately show "sin ?x < - 1 + 1 / 2 ^ 25"
    unfolding s by linarith
qed

text \<open>
  Claim C5, as stated: for every elapsed time the multiplier computed in
  \<^verbatim>\<open>RenderScene\<close> equals 0.9 + 0.1 sin (15 t) and lies in the closed interval from 0.8
  to 1.0. In single precision it does not. At the time \<open>2635359 / 8388608\<close> (the
  binary32 number nearest to a tenth of pi) the argument of the sine is
  \<open>2470649 / 524288\<close>, the sine in single precision is -1, and the multiplier is
  \<open>3355443 / 4194304\<close>, that is 0.79999995..., below 0.8; the spotlight's diffuse
  colour is pushed as (0.71999991, 0.43999999, 0.159999996).
\<close>

theorem flicker_below_bound_counterexample:
  "round_binary32 (2635359 / 8388608 * round_binary32 15) = 2470649 / 524288 \<and>
   \<bar>sin (2470649 / 524288 :: real) - (- 1)\<bar> < 1 / 2 ^ 25 \<and>
   flicker_of (binary32 sine_minus_one) (2635359 / 8388608) = 3355443 / 4194304 \<and>
   \<not> 8 / 10 \<le> flicker_of (binary32 sine_minus_one) (2635359 / 8388608) \<and>
   flicker_diffuse (binary32 sine_minus_one) (2635359 / 8388608) =
     (6039797 / 8388608, 7381975 / 16777216, 5368709 / 33554432)"
proof -
  have arg: "round_binary32 (2635359 / 8388608 * round_binary32 15) = 2470649 / 524288"
    by code_simp
  have sine: "\<bar>sin (2470649 / 524288 :: real) - (- 1)\<bar> < 1 / 2 ^ 25"
  proof -
    have lo: "0 \<le> sin (2470649 / 524288 :: real) - (- 1)"
      using sin_ge_minus_one [of "2470649 / 524288 :: real"] by linarith
    have hi: "sin (2470649 / 524288 :: real) - (- 1) < 1 / 2 ^ 25"
      using sine_near_minus_one(2) by linarith
    show ?thesis
      unfolding abs_of_nonneg [OF lo] by (rule hi)
  qed
  have multiplier: "flicker_of (binary32 sine_minus_one) (2635359 / 8388608) = 3355443 / 4194304"
    by code_simp
  have below: "\<not> 8 / 10 \<le> (3355443 / 4194304 :: rat)"
    by simp
  have diffuse: "flicker_diffuse (binary32 sine_minus_one) (2635359 / 8388608) =
      (6039797 / 8388608, 7381975 / 16777216, 5368709 / 33554432)"
    by code_simp
  show ?thesis
    using arg sine below diffuse unfolding multiplier by simp
qed

text \<open>
  Claim C5, amended. For every elapsed time \<open>t\<close>, the multiplier computed in
  \<^verbatim>\<open>RenderScene\<close> is 0.9 + 0.1 sin (15 t) evaluated in the arithmetic of the machine.
  In exact arithmetic this is the real number 0.9 + 0.1 sin (15 t), in the closed
  interval from 0.8 to 1.0. In binary32, with every literal and operation rounded to
  nearest and a sine that stays between -1 and 1, it lies between
  \<open>3355443 / 4194304\<close> (0.79999995...) and 1.0. Each frame the spotlight's diffuse
  colour is pushed as (0.9, 0.55, 0.2) times the multiplier and its ambient colour as
  (0.08, 0.05, 0.02) times the multiplier, before any routine runs.
\<close>

theorem flicker_multiplier_rounded:
  fixes E :: "(real, 'e) numerics" and N :: "('f, 'm) numerics" and s :: "rat \<Rightarrow> rat"
  shows
  "(flit E = of_rat \<and> fadd E = (+) \<and> fmul E = (*) \<and> fsin E = sin \<longrightarrow>
      flicker_of E x = 9 / 10 + 1 / 10 * sin (15 * x) \<and>
      8 / 10 \<le> flicker_of E x \<and> flicker_of E x \<le> 1) \<and>
   ((\<forall>y. - 1 \<le> s y \<and> s y \<le> 1) \<and> \<bar>t\<bar> < 2 ^ 100 \<longrightarrow>
      flicker_of (binary32 s) t =
        round_binary32 (round_binary32 (9 / 10) +
          round_binary32 (round_binary32 (1 / 10) * s (round_binary32 (t * round_binary32 15)))) \<and>
      3355443 / 4194304 \<le> flicker_of (binary32 s) t \<and> flicker_of (binary32 s) t \<le> 1) \<and>
   (m_pShaderManager w = Some sh \<longrightarrow>
      RenderScene N run time w =
        run_all run render_order
          (w\<lparr>m_pShaderManager := Some (sh\<lparr>uniforms := uniforms sh @
             [(''spotLight.diffuse'', Vec3Value
                 (fmul N (flit N (9 / 10)) (flicker_of N time),
                  fmul N (flit N (55 / 100)) (flicker_of N time),
                  fmul N (flit N (2 / 10)) (flicker_of N time))),
              (''spotLight.ambient'', Vec3Value
                 (fmul N (flit N (8 / 100)) (flicker_of N time),
                  fmul N (flit N (5 / 100)) (flicker_of N time),
                  fmul N (flit N (2 / 100)) (flicker_of N time)))]\<rparr>)\<rparr>))"
proof (intro conjI impI)
  assume exact: "flit E = of_rat \<and> fadd E = (+) \<and> fmul E = (*) \<and> fsin E = sin"
  then have "flicker_of E x = 9 / 10 + 1 / 10 * sin (x * 15) \<and>
      8 / 10 \<le> flicker_of E x \<and> flicker_of E x \<le> 1"
    by (intro flicker_exact_arithmetic) simp_all
  then show "flicker_of E x = 9 / 10 + 1 / 10 * sin (15 * x)"
    and "8 / 10 \<le> flicker_of E x" and "flicker_of E x \<le> 1"
    by (simp_all add: mult.commute)
next
  assume "(\<forall>y. - 1 \<le> s y \<and> s y \<le> 1) \<and> \<bar>t\<bar> < 2 ^ 100"
  then have s: "- 1 \<le> s (round_binary32 (t * round_binary32 15))"
    "s (round_binary32 (t * round_binary32 15)) \<le> 1"
    by simp_all
  show "flicker_of (binary32 s) t =
      round_binary32 (round_binary32 (9 / 10) +
        round_binary32 (round_binary32 (1 / 10) * s (round_binary32 (t * round_binary32 15))))"
    by (rule flicker_of_binary32)
  show "3355443 / 4194304 \<le> flicker_of (binary32 s) t"
    unfolding flicker_of_binary32 using s by (rule flicker_binary32_range)
  show "flicker_of (binary32 s) t \<le> 1"
    unfolding flicker_of_binary32 using s by (rule flicker_binary32_range)
next
  assume "m_pShaderManager w = Some sh"
  then show "RenderScene N run time w =
      run_all run render_order
        (w\<lparr>m_pShaderManager := Some (sh\<lparr>uniforms := uniforms sh @
           [(''spotLight.diffuse'', Vec3Value
               (fmul N (flit N (9 / 10)) (flicker_of N time),
                fmul N (flit N (55 / 100)) (flicker_of N time),
                fmul N (flit N (2 / 10)) (flicker_of N time))),
            (''spotLight.ambient'', Vec3Value
               (fmul N (flit N (8 / 100)) (flicker_of N time),
                fmul N (flit N (5 / 100)) (flicker_of N time),
                fmul N (flit N (2 / 100)) (flicker_of N time)))]\<rparr>)\<rparr>)"
    by (simp add: RenderScene_def vec3_times_def render_order_def and_then_def deref_shader_def
        setVec3Value_def push_def Let_def split: sum.splits)
qed

theorem flicker_multiplier_rounded_witness:
  "flit exact_arithmetic = of_rat \<and> fadd exact_arithmetic = (+) \<and>
   fmul exact_arithmetic = (*) \<and> fsin exact_arithmetic = sin \<and>
   flicker_of exact_arithmetic 0 = 9 / 10 \<and>
   8 / 10 \<le> flicker_of exact_arithmetic 0 \<and> flicker_of exact_arithmetic 0 \<le> 1 \<and>
   (\<forall>y. - 1 \<le> sine_minus_one y \<and> sine_minus_one y \<le> 1) \<and>
   \<bar>2635359 / 8388608 :: rat\<bar> < 2 ^ 100 \<and>
   3355443 / 4194304 \<le> flicker_of (binary32 sine_minus_one) (2635359 / 8388608) \<and>
   flicker_of (binary32 sine_minus_one) (2635359 / 8388608) \<le> 1 \<and>
   m_pShaderManager fresh_scene = Some no_uniforms \<and>
   RenderScene symbolic leave_name (Var ''t'') fresh_scene =
     run_all leave_name render_order
       (fresh_scene\<lparr>m_pShaderManager := Some \<lparr>uniforms =
          [(''spotLight.diffuse'', Vec3Value
              (Fmul (Lit (9 / 10)) (flicker_of symbolic (Var ''t'')),
               Fmul (Lit (55 / 100)) (flicker_of symbolic (Var ''t'')),
               Fmul (Lit (2 / 10)) (flicker_of symbolic (Var ''t'')))),
           (''spotLight.ambient'', Vec3Value
              (Fmul (Lit (8 / 100)) (flicker_of symbolic (Var ''t'')),
               Fmul (Lit (5 / 100)) (flicker_of symbolic (Var ''t'')),
               Fmul (Lit (2 / 100)) (flicker_of symbolic (Var ''t''))))]\<rparr>\<rparr>)"
proof -
  have exact: "flit exact_arithmetic = of_rat \<and> fadd exact_arithmetic = (+) \<and>
      fmul exact_arithmetic = (*) \<and> fsin exact_arithmetic = sin"
    by (simp add: exact_arithmetic_def)
  have sine: "\<forall>y. - 1 \<le> sine_minus_one y \<and> sine_minus_one y \<le> 1"
    by (simp add: sine_minus_one_def)
  have time: "\<bar>2635359 / 8388608 :: rat\<bar> < 2 ^ 100"
    by simp
  have shader: "m_pShaderManager fresh_scene = Some no_uniforms"
    by (simp add: fresh_scene_def SceneManager_def)
  show ?thesis
    using flicker_multiplier_rounded [of exact_arithmetic 0 sine_minus_one "2635359 / 8388608"
        fresh_scene no_uniforms symbolic leave_name "Var ''t''"]
      exact sine time shader
    by (simp add: no_uniforms_def symbolic_def)
qed

end
